theory Spec2Isabelle
  imports Complex_Main
begin

section \<open>The off-season inventory pipeline: CSV decoding, season bucketing, FX normalization\<close>

text \<open>
  A shallow embedding of the data normalization and season-bucketing functions of the
  dashboard's \<^verbatim>\<open>utils\<close> module, the type declarations of \<^verbatim>\<open>types.ts\<close> and the two
  orchestrators that drive them (\<^verbatim>\<open>loadAndNormalizeData\<close> and the \<^verbatim>\<open>loadData\<close> effect of
  \<^verbatim>\<open>OffSeasonInventoryDashboard\<close>).

  Conventions of the embedding.
  \<^item> A JavaScript string is a \<^typ>\<open>string\<close>; every \<^typ>\<open>char\<close> stands for one ASCII code
    unit. White space is the ASCII part of what \<^verbatim>\<open>trim\<close> and \<^verbatim>\<open>\s\<close> match.
  \<^item> \<^verbatim>\<open>string | null | undefined\<close> is a \<^typ>\<open>string option\<close>; \<^verbatim>\<open>null\<close> and \<^verbatim>\<open>undefined\<close>
    are both \<^term>\<open>None\<close> (the code only tests them with \<^verbatim>\<open>!\<close>, \<^verbatim>\<open>??\<close> and \<^verbatim>\<open>||\<close>, which
    do not tell them apart).
  \<^item> A fiscal year and every other whole number (\<^verbatim>\<open>parseInt\<close> results, differences of
    years) is an \<^typ>\<open>int\<close>, exact as binary64 is on whole numbers below \<open>2^53\<close>; \<^verbatim>\<open>NaN\<close>
    from \<^verbatim>\<open>parseInt\<close> is \<^term>\<open>None\<close>.
  \<^item> A monetary or quantity value is a \<open>number\<close>: a real, the two infinities or
    \<^verbatim>\<open>NaN\<close>. Division, subtraction, decimal literals and \<^verbatim>\<open>parseFloat\<close> round their real
    result to binary64 (nearest, ties to even, overflow to an infinity); the whole-number
    literals 0 and 1 are exact. The sign of zero is not part of the model.
  \<^item> A method call on \<^verbatim>\<open>null\<close> or \<^verbatim>\<open>undefined\<close> raises \<^verbatim>\<open>TypeError\<close>; a function that
    can reach such a call returns \<open>js_error + 'a\<close>.
  \<^item> A \<^verbatim>\<open>Record<string, string>\<close> is a map from keys to values; an assignment to a key
    that is already there replaces its value. Header names are ordinary keys (not
    \<^verbatim>\<open>__proto__\<close>).
  \<^item> Fetching a file is outside the model: an orchestrator takes the fetched text.
\<close>

subsection \<open>JavaScript strings\<close>

definition is_space :: "char \<Rightarrow> bool" where
  "is_space c \<longleftrightarrow> c = CHR 0x09 \<or> c = CHR 0x0A \<or> c = CHR 0x0B \<or> c = CHR 0x0C \<or> c = CHR 0x0D \<or> c = CHR '' ''"

text \<open>\<^verbatim>\<open>String.prototype.trim\<close>\<close>

definition trim :: "string \<Rightarrow> string" where
  "trim s = rev (dropWhile is_space (rev (dropWhile is_space s)))"

definition is_digit :: "char \<Rightarrow> bool" where
  "is_digit c \<longleftrightarrow> c \<in> set ''0123456789''"

definition digit_val :: "char \<Rightarrow> int" where
  "digit_val c = of_char c - 48"

text \<open>The mathematical value of a string of decimal digits.\<close>

definition digits_val :: "string \<Rightarrow> int" where
  "digits_val ds = foldl (\<lambda>a c. 10 * a + digit_val c) 0 ds"

text \<open>An optional sign followed by decimal digits, read from the start of the string.\<close>

definition signed_digits :: "string \<Rightarrow> int option" where
  "signed_digits t =
     (let neg = (t \<noteq> [] \<and> hd t = CHR ''-'');
          u = (if t \<noteq> [] \<and> (hd t = CHR ''+'' \<or> hd t = CHR ''-'') then tl t else t);
          z = takeWhile is_digit u
      in if z = [] then None else Some ((if neg then - 1 else 1) * digits_val z))"

text \<open>
  \<^verbatim>\<open>parseInt(s, 10)\<close>: leading white space is skipped, one sign is read, then the longest
  run of decimal digits; no digit at all gives \<^verbatim>\<open>NaN\<close>.
\<close>

definition js_parseInt10 :: "string \<Rightarrow> int option" where
  "js_parseInt10 s = signed_digits (dropWhile is_space s)"

text \<open>\<^verbatim>\<open>/^\d+$/.test(s)\<close>\<close>

definition all_digits :: "string \<Rightarrow> bool" where
  "all_digits s \<longleftrightarrow> s \<noteq> [] \<and> list_all is_digit s"

text \<open>\<^verbatim>\<open>String.prototype.toUpperCase\<close> on ASCII letters.\<close>

definition js_toUpperCase :: "string \<Rightarrow> string" where
  "js_toUpperCase s =
     map (\<lambda>c. case map_of (zip ''abcdefghijklmnopqrstuvwxyz'' ''ABCDEFGHIJKLMNOPQRSTUVWXYZ'') c of
                 None \<Rightarrow> c | Some u \<Rightarrow> u) s"

text \<open>\<^verbatim>\<open>s.replace(/\r?\n/g, ' ')\<close>\<close>

fun replace_newlines :: "string \<Rightarrow> string" where
  "replace_newlines [] = []"
| "replace_newlines [c] = (if c = CHR 0x0A then '' '' else [c])"
| "replace_newlines (c # d # cs) =
     (if c = CHR 0x0A then CHR '' '' # replace_newlines (d # cs)
      else if c = CHR 0x0D \<and> d = CHR 0x0A then CHR '' '' # replace_newlines cs
      else c # replace_newlines (d # cs))"

text \<open>\<^verbatim>\<open>s.split(/\r?\n/)\<close>; \<open>cur\<close> is the piece being read.\<close>

fun split_lines :: "string \<Rightarrow> string \<Rightarrow> string list" where
  "split_lines [] cur = [cur]"
| "split_lines [c] cur = (if c = CHR 0x0A then [cur, []] else [cur @ [c]])"
| "split_lines (c # d # cs) cur =
     (if c = CHR 0x0A then cur # split_lines (d # cs) []
      else if c = CHR 0x0D \<and> d = CHR 0x0A then cur # split_lines cs []
      else split_lines (d # cs) (cur @ [c]))"

text \<open>\<^verbatim>\<open>xs.join(' ')\<close>\<close>

fun join_space :: "string list \<Rightarrow> string" where
  "join_space [] = []"
| "join_space [x] = x"
| "join_space (x # y # ys) = x @ '' '' @ join_space (y # ys)"

subsection \<open>JavaScript numbers\<close>

datatype number = Number real | PosInf | NegInf | NaN

datatype js_error = TypeError

text \<open>
  A finite JavaScript number is a binary64 value: 53 significant bits, exponents from
  \<open>-1022\<close> to \<open>1023\<close>, subnormal values below. Every arithmetic result, every decimal
  literal and every parsed decimal text is the real result rounded to the nearest such
  value, ties to the even significand (\<open>round64\<close>). Zero carries no sign in the model.
\<close>

definition pow2 :: "int \<Rightarrow> real" where
  "pow2 e = (if 0 \<le> e then 2 ^ nat e else 1 / 2 ^ nat (- e))"

text \<open>The number of binary digits of a positive integer.\<close>

function bit_length :: "int \<Rightarrow> nat" where
  "bit_length n = (if n \<le> 0 then 0 else Suc (bit_length (n div 2)))"
  by pat_completeness auto
termination
  by (relation "measure nat") auto

declare bit_length.simps [simp del]

text \<open>
  The binary exponent of a positive real \<open>x\<close>: the \<open>e\<close> with \<open>2^e \<le> x < 2^(e + 1)\<close>, and
  \<open>-1022\<close> for every \<open>x\<close> below \<open>2^(-1022)\<close> (the subnormal range).
\<close>

definition b64_exponent :: "real \<Rightarrow> int" where
  "b64_exponent x =
     max (- 1022)
       (if 1 \<le> x then int (bit_length \<lfloor>x\<rfloor>) - 1
        else - int (bit_length (\<lceil>1 / x\<rceil> - 1)))"

text \<open>The nearest integer, a tie going to the even one.\<close>

definition round_half_even :: "real \<Rightarrow> int" where
  "round_half_even y =
     (let f = \<lfloor>y\<rfloor>; d = y - of_int f
      in if d < 1 / 2 then f else if 1 / 2 < d then f + 1 else if even f then f else f + 1)"

text \<open>
  Rounding to binary64: the real is rounded to a multiple of the spacing \<open>2^(e - 52)\<close> of
  its exponent \<open>e\<close>; a result of magnitude \<open>2^1024\<close> or more is an infinity.
\<close>

definition round64 :: "real \<Rightarrow> number" where
  "round64 x =
     (if x = 0 then Number 0
      else
        let q = pow2 (b64_exponent \<bar>x\<bar> - 52);
            r = of_int (round_half_even (x / q)) * q
        in if pow2 1024 \<le> r then PosInf
           else if r \<le> - pow2 1024 then NegInf
           else Number r)"

text \<open>The number a decimal literal of the source denotes, as \<^verbatim>\<open>1.03\<close>.\<close>

definition js_literal :: "real \<Rightarrow> number" where
  "js_literal x = round64 x"

text \<open>
  The numbers the program can hold: a finite one is a binary64 value, which is to say
  that rounding leaves it as it is.
\<close>

definition is_binary64 :: "number \<Rightarrow> bool" where
  "is_binary64 v \<longleftrightarrow> (case v of Number a \<Rightarrow> round64 a = Number a | _ \<Rightarrow> True)"

text \<open>\<^verbatim>\<open>x / y\<close>\<close>

fun js_div :: "number \<Rightarrow> number \<Rightarrow> number" where
  "js_div NaN y = NaN"
| "js_div x NaN = NaN"
| "js_div (Number a) (Number b) =
     (if b = 0 then (if a = 0 then NaN else if 0 < a then PosInf else NegInf)
      else round64 (a / b))"
| "js_div (Number a) y = Number 0"
| "js_div PosInf (Number b) = (if 0 \<le> b then PosInf else NegInf)"
| "js_div NegInf (Number b) = (if 0 \<le> b then NegInf else PosInf)"
| "js_div x y = NaN"

text \<open>\<^verbatim>\<open>x - y\<close>\<close>

fun js_sub :: "number \<Rightarrow> number \<Rightarrow> number" where
  "js_sub NaN y = NaN"
| "js_sub x NaN = NaN"
| "js_sub (Number a) (Number b) = round64 (a - b)"
| "js_sub (Number a) PosInf = NegInf"
| "js_sub (Number a) NegInf = PosInf"
| "js_sub PosInf PosInf = NaN"
| "js_sub PosInf y = PosInf"
| "js_sub NegInf NegInf = NaN"
| "js_sub NegInf y = NegInf"

text \<open>\<^verbatim>\<open>x > y\<close>\<close>

fun js_gt :: "number \<Rightarrow> number \<Rightarrow> bool" where
  "js_gt (Number a) (Number b) \<longleftrightarrow> b < a"
| "js_gt (Number a) NegInf \<longleftrightarrow> True"
| "js_gt PosInf (Number b) \<longleftrightarrow> True"
| "js_gt PosInf NegInf \<longleftrightarrow> True"
| "js_gt x y \<longleftrightarrow> False"

definition isNaN :: "number \<Rightarrow> bool" where
  "isNaN x \<longleftrightarrow> x = NaN"

definition pow10 :: "int \<Rightarrow> real" where
  "pow10 e = (if 0 \<le> e then 10 ^ nat e else 1 / 10 ^ nat (- e))"

text \<open>
  The exponent part of a decimal literal: \<^verbatim>\<open>e\<close> or \<^verbatim>\<open>E\<close>, an optional sign and at least
  one digit. Anything else is not part of the literal and counts as exponent 0.
\<close>

definition exponent_part :: "string \<Rightarrow> int" where
  "exponent_part r =
     (if r \<noteq> [] \<and> (hd r = CHR ''e'' \<or> hd r = CHR ''E'') then
        (case signed_digits (tl r) of None \<Rightarrow> 0 | Some e \<Rightarrow> e)
      else 0)"

text \<open>
  \<^verbatim>\<open>parseFloat(s)\<close>: leading white space is skipped; the longest prefix that is a decimal
  literal (a sign, then \<^verbatim>\<open>Infinity\<close> or digits with an optional fraction and exponent) is
  the value, rounded to binary64; no such prefix gives \<^verbatim>\<open>NaN\<close>.
\<close>

definition js_parseFloat :: "string \<Rightarrow> number" where
  "js_parseFloat s =
     (let t = dropWhile is_space s;
          neg = (t \<noteq> [] \<and> hd t = CHR ''-'');
          u = (if t \<noteq> [] \<and> (hd t = CHR ''+'' \<or> hd t = CHR ''-'') then tl t else t)
      in if take 8 u = ''Infinity'' then (if neg then NegInf else PosInf)
         else
           let ip = takeWhile is_digit u;
               r1 = dropWhile is_digit u;
               hasDot = (r1 \<noteq> [] \<and> hd r1 = CHR ''.'');
               fp = (if hasDot then takeWhile is_digit (tl r1) else []);
               r2 = (if hasDot then dropWhile is_digit (tl r1) else r1)
           in if ip = [] \<and> fp = [] then NaN
              else round64 ((if neg then - 1 else 1) * of_int (digits_val (ip @ fp))
                              / 10 ^ length fp * pow10 (exponent_part r2)))"

subsection \<open>The types of \<^verbatim>\<open>types.ts\<close>\<close>

datatype SourceYearType = PY | CY

datatype SeasonType = FW | S | ACC | OTHER

datatype YearBucket = InSeason | Y1 | Y2 | Y3Plus

record SeasonInfo =
  seasonCode :: string
  seasonType :: SeasonType
  seasonYear :: "int option"
  yearBucket :: YearBucket

subsection \<open>The season classifier\<close>

definition parseSeason :: "string option \<Rightarrow> int \<Rightarrow> SeasonInfo" where
  "parseSeason seasonCodeRaw currentFwYear =
     (let seasonCode = trim (case seasonCodeRaw of None \<Rightarrow> [] | Some c \<Rightarrow> c)
      in if seasonCode = [] then
           \<lparr>seasonCode = [], seasonType = OTHER, seasonYear = None, yearBucket = InSeason\<rparr>
         else
           let suffix = last seasonCode;
               yearPart = butlast seasonCode;
               year = (if all_digits yearPart then js_parseInt10 yearPart else None);
               seasonType =
                 (if suffix = CHR ''F'' then FW
                  else if suffix = CHR ''S'' then S
                  else if suffix = CHR ''N'' then ACC
                  else OTHER);
               yearBucket =
                 (if seasonType = FW \<and> year \<noteq> None then
                    let diff = currentFwYear - the year
                    in if diff \<le> 0 then InSeason
                       else if diff = 1 then Y1
                       else if diff = 2 then Y2
                       else Y3Plus
                  else InSeason)
           in \<lparr>seasonCode = seasonCode, seasonType = seasonType, seasonYear = year,
               yearBucket = yearBucket\<rparr>)"

subsection \<open>Inventory rows\<close>

record InventoryRowRaw =
  period :: string
  country :: string
  exRate :: number
  itemCode :: string
  itemDesc1 :: string
  itemDesc2 :: "string option"
  storeCode :: string
  storeName :: string
  salesDiv :: string
  season :: string
  brand :: string
  brandName :: string
  category :: string
  categoryName :: string
  subcategory :: string
  subcategoryName :: string
  salesQty :: number
  acSalesQty :: number
  stockQty :: number
  netAcPC :: number
  netAcPP :: number
  acSalesCost :: number
  acSalesNetAmount :: number
  acSalesGross :: number
  grossSalesMonth :: number
  netSalesMonth :: number
  cogsMonth :: number
  stockCost :: number
  stockPriceTag :: number
  sourceYearType :: SourceYearType

text \<open>\<^verbatim>\<open>InventoryRow = InventoryRowRaw & {...}\<close>\<close>

record InventoryRow = InventoryRowRaw +
  fxRate :: number
  grossSalesFx :: number
  netSalesFx :: number
  stockPriceFx :: number
  stockCostFx :: number
  acSalesGrossFx :: number
  netAcPPFx :: number
  acSalesCostFx :: number
  acSalesNetAmountFx :: number
  cogsFx :: number
  discountRateMonth :: "number option"
  seasonInfo :: SeasonInfo

text \<open>A row of the CSV tokenizer, \<^verbatim>\<open>Record<string, string>\<close>; a missing key reads \<^verbatim>\<open>undefined\<close>.\<close>

type_synonym csv_row = "string \<rightharpoonup> string"

subsection \<open>Primitive parsers\<close>

text \<open>\<^verbatim>\<open>!!v\<close> for a \<^verbatim>\<open>string | null | undefined\<close>\<close>

definition truthy :: "string option \<Rightarrow> bool" where
  "truthy v \<longleftrightarrow> (case v of None \<Rightarrow> False | Some s \<Rightarrow> s \<noteq> [])"

text \<open>\<^verbatim>\<open>a || b\<close>\<close>

definition js_or :: "string option \<Rightarrow> string option \<Rightarrow> string option" where
  "js_or a b = (if truthy a then a else b)"

text \<open>
  The receiver of \<^verbatim>\<open>v.trim()\<close> is written out: on \<^verbatim>\<open>null\<close> or \<^verbatim>\<open>undefined\<close> the call raises.
\<close>

definition parseNumber :: "string option \<Rightarrow> js_error + number" where
  "parseNumber v =
     (if \<not> truthy v then Inr (Number 0)
      else case v of
        None \<Rightarrow> Inl TypeError
      | Some s \<Rightarrow>
          let cleaned = filter (\<lambda>c. \<not> is_space c) (filter (\<lambda>c. c \<noteq> CHR '','') (trim s));
              parsed = js_parseFloat cleaned
          in Inr (if isNaN parsed then Number 0 else parsed))"

definition parseString :: "string option \<Rightarrow> string" where
  "parseString v = trim (case v of None \<Rightarrow> [] | Some s \<Rightarrow> s)"

text \<open>Sequencing of calls that may raise: the first error ends the evaluation.\<close>

definition and_then :: "js_error + 'a \<Rightarrow> ('a \<Rightarrow> js_error + 'b) \<Rightarrow> js_error + 'b" where
  "and_then m f = (case m of Inl e \<Rightarrow> Inl e | Inr x \<Rightarrow> f x)"

subsection \<open>The inventory row decoder\<close>

definition parseCSVRow :: "csv_row \<Rightarrow> SourceYearType \<Rightarrow> js_error + InventoryRowRaw" where
  "parseCSVRow row srcYearType =
     (let country = js_toUpperCase (parseString (row ''Country'')) in
      and_then (parseNumber (row ''Ex-rate'')) (\<lambda>exRate.
      and_then (parseNumber (row ''Sales (Qty)'')) (\<lambda>salesQty.
      and_then (parseNumber (row ''AC Sales (Qty)'')) (\<lambda>acSalesQty.
      and_then (parseNumber (row ''Stock (Qty)'')) (\<lambda>stockQty.
      and_then (parseNumber (row ''Net AcP.C'')) (\<lambda>netAcPC.
      and_then (parseNumber (row ''Net AcP.P'')) (\<lambda>netAcPP.
      and_then (parseNumber
         (js_or (js_or (row (''AC Sales'' @ [CHR 0x0A] @ ''(Cost)'')) (row ''AC Sales (Cost)''))
            (row (''AC Sales'' @ [CHR 0x0D, CHR 0x0A] @ ''(Cost)'')))) (\<lambda>acSalesCost.
      and_then (parseNumber
         (js_or (js_or (row (''AC Sales'' @ [CHR 0x0A] @ ''(Net Amount)''))
                   (row ''AC Sales (Net Amount)''))
            (row (''AC Sales'' @ [CHR 0x0D, CHR 0x0A] @ ''(Net Amount)'')))) (\<lambda>acSalesNetAmount.
      and_then (parseNumber
         (js_or (js_or (row (''AC Sales'' @ [CHR 0x0A] @ ''(Gross Sales)''))
                   (row ''AC Sales (Gross Sales)''))
            (row (''AC Sales'' @ [CHR 0x0D, CHR 0x0A] @ ''(Gross Sales)'')))) (\<lambda>acSalesGross.
      and_then (parseNumber (row ''Gross Sales ($)'')) (\<lambda>grossSalesMonth.
      and_then (parseNumber (row ''Net Sales ($)'')) (\<lambda>netSalesMonth.
      and_then (parseNumber (row ''COGS ($)'')) (\<lambda>cogsMonth.
      and_then (parseNumber (row ''Stock Cost ($)'')) (\<lambda>stockCost.
      and_then (parseNumber (row ''Stock Price ($)'')) (\<lambda>stockPriceTag.
      Inr \<lparr>period = parseString (row ''period''),
           country = country,
           exRate = exRate,
           itemCode = parseString (row ''ITEM CODE''),
           itemDesc1 = parseString (row ''ITEM DESC1''),
           itemDesc2 =
             (let d = parseString (row ''ITEM DESC2'') in if d = [] then None else Some d),
           storeCode = parseString (row ''STORE''),
           storeName = parseString (row ''STORE NAME''),
           salesDiv = parseString (row ''SALES DIV''),
           season = parseString (row ''SEASON''),
           brand = parseString (row ''BRAND''),
           brandName = parseString (row ''BRAND NAME''),
           category = parseString (row ''CATEGORY''),
           categoryName = parseString (row ''CATEGORY NAME''),
           subcategory = parseString (row ''SUBCATEGORY''),
           subcategoryName = parseString (row ''SUBCATEGORY NAME''),
           salesQty = salesQty,
           acSalesQty = acSalesQty,
           stockQty = stockQty,
           netAcPC = netAcPC,
           netAcPP = netAcPP,
           acSalesCost = acSalesCost,
           acSalesNetAmount = acSalesNetAmount,
           acSalesGross = acSalesGross,
           grossSalesMonth = grossSalesMonth,
           netSalesMonth = netSalesMonth,
           cogsMonth = cogsMonth,
           stockCost = stockCost,
           stockPriceTag = stockPriceTag,
           sourceYearType = srcYearType\<rparr>)))))))))))))))"

subsection \<open>The FX normalizer\<close>

definition applyFxNormalization :: "InventoryRowRaw \<Rightarrow> SeasonInfo \<Rightarrow> InventoryRow" where
  "applyFxNormalization row info =
     (let country = country row;
          fxRate =
            (if country = ''HK'' then Number 1
             else if country = ''MC'' then js_literal 1.03
             else if country = ''TW'' then js_literal 4.02
             else Number 1);
          applyFx = (\<lambda>v. if country = ''HK'' then v else js_div v fxRate);
          grossSalesFx = applyFx (grossSalesMonth row);
          netSalesFx = applyFx (netSalesMonth row);
          stockPriceFx = applyFx (stockPriceTag row);
          stockCostFx = applyFx (stockCost row);
          acSalesGrossFx = applyFx (acSalesGross row);
          netAcPPFx = applyFx (netAcPP row);
          acSalesCostFx = applyFx (acSalesCost row);
          acSalesNetAmountFx = applyFx (acSalesNetAmount row);
          cogsFx = applyFx (cogsMonth row);
          discountRateMonth =
            (if js_gt grossSalesFx (Number 0)
             then Some (js_sub (Number 1) (js_div netSalesFx grossSalesFx)) else None)
      in InventoryRowRaw.extend row
           \<lparr>fxRate = fxRate,
            grossSalesFx = grossSalesFx,
            netSalesFx = netSalesFx,
            stockPriceFx = stockPriceFx,
            stockCostFx = stockCostFx,
            acSalesGrossFx = acSalesGrossFx,
            netAcPPFx = netAcPPFx,
            acSalesCostFx = acSalesCostFx,
            acSalesNetAmountFx = acSalesNetAmountFx,
            cogsFx = cogsFx,
            discountRateMonth = discountRateMonth,
            seasonInfo = info\<rparr>)"

text \<open>
  The nine monetary fields of a raw row that \<^const>\<open>applyFxNormalization\<close> converts, and the
  nine fields of the normalized row that hold the results, in the order of the source.
\<close>

definition rawMonetaryFields :: "InventoryRowRaw \<Rightarrow> number list" where
  "rawMonetaryFields row =
     [grossSalesMonth row, netSalesMonth row, stockPriceTag row, stockCost row,
      acSalesGross row, netAcPP row, acSalesCost row, acSalesNetAmount row, cogsMonth row]"

definition normalizedMonetaryFields :: "InventoryRow \<Rightarrow> number list" where
  "normalizedMonetaryFields r =
     [grossSalesFx r, netSalesFx r, stockPriceFx r, stockCostFx r,
      acSalesGrossFx r, netAcPPFx r, acSalesCostFx r, acSalesNetAmountFx r, cogsFx r]"

text \<open>A raw row for a country with given monthly gross and net sales, for examples.\<close>

definition sampleRaw :: "string \<Rightarrow> number \<Rightarrow> number \<Rightarrow> InventoryRowRaw" where
  "sampleRaw c gross net =
     \<lparr>period = ''2512'', country = c, exRate = Number 1,
      itemCode = ''A1'', itemDesc1 = ''JACKET'', itemDesc2 = None,
      storeCode = ''S01'', storeName = ''STORE'', salesDiv = ''1'', season = ''24F'',
      brand = ''B'', brandName = ''BRAND'', category = ''C'', categoryName = ''OUTER'',
      subcategory = ''SC'', subcategoryName = ''DOWN'',
      salesQty = Number 2, acSalesQty = Number 5, stockQty = Number 7,
      netAcPC = Number 10, netAcPP = Number 206,
      acSalesCost = Number 103, acSalesNetAmount = Number 309, acSalesGross = Number 412,
      grossSalesMonth = gross, netSalesMonth = net, cogsMonth = Number 515,
      stockCost = Number 618, stockPriceTag = Number 721,
      sourceYearType = CY\<rparr>"

subsection \<open>The off-season predicate\<close>

text \<open>
  The object type \<^verbatim>\<open>{ seasonInfo: SeasonInfo }\<close>, the second arm of the parameter type of
  \<^verbatim>\<open>isOffSeasonFW\<close>.
\<close>

record SeasonInfoRow =
  seasonInfo :: SeasonInfo

text \<open>
  The parameter type \<^verbatim>\<open>InventoryRow | { seasonInfo: SeasonInfo }\<close> is a sum;
  \<^verbatim>\<open>row.seasonInfo\<close> reads the field of either arm.
\<close>

definition rowSeasonInfo :: "InventoryRow + SeasonInfoRow \<Rightarrow> SeasonInfo" where
  "rowSeasonInfo row =
     (case row of Inl r \<Rightarrow> InventoryRow.seasonInfo r | Inr r \<Rightarrow> SeasonInfoRow.seasonInfo r)"

definition isOffSeasonFW :: "InventoryRow + SeasonInfoRow \<Rightarrow> bool" where
  "isOffSeasonFW row =
     (let info = rowSeasonInfo row
      in seasonType info = FW \<and>
         (yearBucket info = Y1 \<or> yearBucket info = Y2 \<or> yearBucket info = Y3Plus))"

subsection \<open>The CSV tokenizer\<close>

text \<open>
  The loop of \<^verbatim>\<open>parseCSVLine\<close> over the characters not yet read, with its three variables
  \<^verbatim>\<open>values\<close>, \<^verbatim>\<open>currentValue\<close> and \<^verbatim>\<open>inQuotes\<close>. An escaped quote consumes two characters.
\<close>

fun parseCSVLine_loop :: "string \<Rightarrow> string list \<Rightarrow> string \<Rightarrow> bool \<Rightarrow> string list" where
  "parseCSVLine_loop [] vals currentValue inQuotes = vals @ [trim currentValue]"
| "parseCSVLine_loop [c] vals currentValue inQuotes =
     (if c = CHR 0x22 then parseCSVLine_loop [] vals currentValue (\<not> inQuotes)
      else if c = CHR '','' \<and> \<not> inQuotes then parseCSVLine_loop [] (vals @ [trim currentValue]) [] inQuotes
      else parseCSVLine_loop [] vals (currentValue @ [c]) inQuotes)"
| "parseCSVLine_loop (c # nextChar # rest) vals currentValue inQuotes =
     (if c = CHR 0x22 then
        (if inQuotes \<and> nextChar = CHR 0x22
         then parseCSVLine_loop rest vals (currentValue @ [CHR 0x22]) inQuotes
         else parseCSVLine_loop (nextChar # rest) vals currentValue (\<not> inQuotes))
      else if c = CHR '','' \<and> \<not> inQuotes
        then parseCSVLine_loop (nextChar # rest) (vals @ [trim currentValue]) [] inQuotes
      else parseCSVLine_loop (nextChar # rest) vals (currentValue @ [c]) inQuotes)"

definition parseCSVLine :: "string \<Rightarrow> string list" where
  "parseCSVLine line = parseCSVLine_loop line [] [] False"

text \<open>
  The quote scan of a header line: a double quote toggles \<^verbatim>\<open>inQuotes\<close> unless the character
  before it is a double quote; \<open>prev\<close> is \<^verbatim>\<open>line[i - 1]\<close>, absent at \<^verbatim>\<open>i = 0\<close>.
\<close>

fun quoteScan :: "char option \<Rightarrow> string \<Rightarrow> bool \<Rightarrow> bool" where
  "quoteScan prev [] inQuotes = inQuotes"
| "quoteScan prev (c # cs) inQuotes =
     quoteScan (Some c) cs
       (if c = CHR 0x22 \<and> prev \<noteq> Some (CHR 0x22) then \<not> inQuotes else inQuotes)"

text \<open>
  The \<^verbatim>\<open>while\<close> loop that joins the lines of a header whose quotes are still open; it
  returns \<^verbatim>\<open>headerLines\<close> and \<^verbatim>\<open>headerEndIndex\<close>.
\<close>

function headerLoop ::
  "string list \<Rightarrow> bool \<Rightarrow> nat \<Rightarrow> string list \<Rightarrow> nat \<Rightarrow> string list \<times> nat" where
  "headerLoop lines inQuotes currentLineIndex headerLines headerEndIndex =
     (if inQuotes \<and> currentLineIndex < length lines \<and> currentLineIndex < 5 then
        headerLoop lines (quoteScan None (lines ! currentLineIndex) inQuotes)
          (currentLineIndex + 1) (headerLines @ [lines ! currentLineIndex])
          (currentLineIndex + 1)
      else (headerLines, headerEndIndex))"
  by pat_completeness auto
termination
  by (relation "measure (\<lambda>(lines, inQuotes, i, headerLines, e). 5 - i)") auto

definition cleanHeader :: "string \<Rightarrow> string" where
  "cleanHeader h =
     (let cleaned = trim h;
          cleaned' =
            (if cleaned \<noteq> [] \<and>
                ((hd cleaned = CHR 0x22 \<and> last cleaned = CHR 0x22) \<or>
                 (hd cleaned = CHR 0x27 \<and> last cleaned = CHR 0x27))
             then butlast (tl cleaned) else cleaned)
      in trim (replace_newlines cleaned'))"

text \<open>
  \<^verbatim>\<open>cleanedHeaders.forEach((header, index) => { row[header] = values[index] ?? '' })\<close>, over
  the headers from position \<open>index\<close> on.
\<close>

fun forEachHeader :: "string list \<Rightarrow> nat \<Rightarrow> string list \<Rightarrow> csv_row \<Rightarrow> csv_row" where
  "forEachHeader [] index vals row = row"
| "forEachHeader (header # hs) index vals row =
     forEachHeader hs (index + 1) vals
       (row(header \<mapsto> (if index < length vals then vals ! index else [])))"

text \<open>
  The data-row loop, over the lines from \<^verbatim>\<open>headerEndIndex\<close> on; \<open>rows\<close> is the array being
  filled.
\<close>

fun dataLoop :: "string list \<Rightarrow> string list \<Rightarrow> csv_row list \<Rightarrow> csv_row list" where
  "dataLoop cleanedHeaders [] rows = rows"
| "dataLoop cleanedHeaders (l # ls) rows =
     (let line = trim l
      in if line = [] then dataLoop cleanedHeaders ls rows
         else
           let vals = parseCSVLine line
           in if int (length cleanedHeaders) - 1 \<le> int (length vals)
              then dataLoop cleanedHeaders ls
                     (rows @ [forEachHeader cleanedHeaders 0 vals Map.empty])
              else dataLoop cleanedHeaders ls rows)"

definition csvLines :: "string \<Rightarrow> string list" where
  "csvLines csvText = filter (\<lambda>line. trim line \<noteq> []) (split_lines csvText [])"

definition csvHeader :: "string list \<Rightarrow> string list \<times> nat" where
  "csvHeader lines =
     (let (headerLines, headerEndIndex) =
            headerLoop lines (quoteScan None (lines ! 0) False) 1 [lines ! 0] 1;
          combinedHeader = join_space headerLines;
          headers = parseCSVLine combinedHeader
      in (map cleanHeader headers, headerEndIndex))"

definition parseCSV :: "string \<Rightarrow> csv_row list" where
  "parseCSV csvText =
     (let lines = csvLines csvText
      in if length lines < 2 then []
         else
           let (cleanedHeaders, headerEndIndex) = csvHeader lines
           in dataLoop cleanedHeaders (drop headerEndIndex lines) [])"

subsection \<open>The inventory orchestrators\<close>

text \<open>
  One \<^verbatim>\<open>for (const row of rows) { try { ... allRows.push(normalized) } catch { warn } }\<close>
  loop: the source-year tag and the reference fiscal year are what the loops of the two
  orchestrators differ in. A row whose decoding raises is skipped.
\<close>

fun normalizeLoop ::
  "SourceYearType \<Rightarrow> int \<Rightarrow> csv_row list \<Rightarrow> InventoryRow list \<Rightarrow> InventoryRow list" where
  "normalizeLoop tag fwYear [] allRows = allRows"
| "normalizeLoop tag fwYear (row # rows) allRows =
     (case parseCSVRow row tag of
        Inl error \<Rightarrow> normalizeLoop tag fwYear rows allRows
      | Inr raw \<Rightarrow>
          let info = parseSeason (Some (season raw)) fwYear;
              normalized = applyFxNormalization raw info
          in normalizeLoop tag fwYear rows (allRows @ [normalized]))"

text \<open>What one pass of the loop body pushes for a row whose decoding does not raise.\<close>

definition decodeRow :: "SourceYearType \<Rightarrow> int \<Rightarrow> csv_row \<Rightarrow> InventoryRow" where
  "decodeRow tag fwYear row =
     (let raw = projr (parseCSVRow row tag)
      in applyFxNormalization raw (parseSeason (Some (season raw)) fwYear))"

text \<open>
  \<^verbatim>\<open>loadAndNormalizeData\<close> of the utilities. The two texts are what \<^verbatim>\<open>loadCSVFile\<close> fetched
  for the two paths.
\<close>

definition loadAndNormalizeData :: "string \<Rightarrow> string \<Rightarrow> int \<Rightarrow> InventoryRow list" where
  "loadAndNormalizeData pyCsv cyCsv currentFwYear =
     (let pyRows = parseCSV pyCsv;
          cyRows = parseCSV cyCsv;
          allRows = normalizeLoop PY currentFwYear pyRows []
      in normalizeLoop CY currentFwYear cyRows allRows)"

text \<open>
  \<^verbatim>\<open>loadData\<close> of the dashboard component, up to \<^verbatim>\<open>setData(allRows)\<close>. \<open>fetchText\<close> is the
  text fetched for a path; the component's property \<^verbatim>\<open>currentFwYear\<close> is in scope.
\<close>

definition loadData ::
  "(string \<Rightarrow> string) \<Rightarrow> string option \<Rightarrow> string option \<Rightarrow>
   csv_row list option \<Rightarrow> csv_row list option \<Rightarrow> int \<Rightarrow> InventoryRow list" where
  "loadData fetchText pyFilePath cyFilePath pyRowsRaw cyRowsRaw currentFwYear =
     (if pyRowsRaw \<noteq> None \<and> cyRowsRaw \<noteq> None then
        let allRows = normalizeLoop PY 24 (the pyRowsRaw) []
        in normalizeLoop CY 25 (the cyRowsRaw) allRows
      else if truthy pyFilePath \<and> truthy cyFilePath then
        let pyCsv = fetchText (the pyFilePath);
            cyCsv = fetchText (the cyFilePath);
            pyParsed = parseCSV pyCsv;
            cyParsed = parseCSV cyCsv;
            allRows = normalizeLoop PY 24 pyParsed []
        in normalizeLoop CY 25 cyParsed allRows
      else [])"

subsection \<open>Graph rows\<close>

record GraphDataRowRaw =
  Period :: string
  Year :: string
  Season_Code :: string
  Gross_Sales :: number
  Net_Sales :: number
  Stock_Price :: number
  Stock_Cost :: number
  Country :: string

text \<open>\<^verbatim>\<open>GraphDataRow = GraphDataRowRaw & {...}\<close>\<close>

record GraphDataRow = GraphDataRowRaw +
  period :: string
  year :: int
  seasonCode :: string
  grossSalesFx :: number
  netSalesFx :: number
  stockPriceFx :: number
  stockCostFx :: number
  country :: string
  seasonInfo :: SeasonInfo
  discountRate :: "number option"

definition normalizeGraphDataRow :: "GraphDataRowRaw \<Rightarrow> GraphDataRow" where
  "normalizeGraphDataRow raw =
     (let country = Country raw;
          periodYear = js_parseInt10 (take 2 (Period raw));
          yearColumn =
            (let y = js_parseInt10 (Year raw) in if y = None \<or> y = Some 0 then 2025 else the y);
          year =
            (case periodYear of
               None \<Rightarrow> yearColumn
             | Some p \<Rightarrow>
                 if 24 \<le> p \<and> p \<le> 99 then 2000 + p
                 else if 0 \<le> p \<and> p < 24 then 2000 + p
                 else yearColumn);
          currentFwYear = (if periodYear = Some 24 then 24 else 25);
          fxRate =
            (if country = ''HK'' then Number 1
             else if country = ''MC'' then js_literal 1.03
             else if country = ''TW'' then js_literal 4.02
             else Number 1);
          applyFx = (\<lambda>v. if country = ''HK'' then v else js_div v fxRate);
          grossSalesFx = applyFx (Gross_Sales raw);
          netSalesFx = applyFx (Net_Sales raw);
          stockPriceFx = applyFx (Stock_Price raw);
          stockCostFx = applyFx (Stock_Cost raw);
          info = parseSeason (Some (Season_Code raw)) currentFwYear;
          discountRate =
            (if js_gt grossSalesFx (Number 0)
             then Some (js_sub (Number 1) (js_div netSalesFx grossSalesFx)) else None)
      in GraphDataRowRaw.extend raw
           \<lparr>period = Period raw,
            year = year,
            seasonCode = Season_Code raw,
            grossSalesFx = grossSalesFx,
            netSalesFx = netSalesFx,
            stockPriceFx = stockPriceFx,
            stockCostFx = stockCostFx,
            country = country,
            seasonInfo = info,
            discountRate = discountRate\<rparr>)"

text \<open>A raw graph row, for examples.\<close>

definition sampleGraphRaw ::
  "string \<Rightarrow> string \<Rightarrow> string \<Rightarrow> string \<Rightarrow> number \<Rightarrow> number \<Rightarrow> GraphDataRowRaw" where
  "sampleGraphRaw p y code c gross net =
     \<lparr>Period = p, Year = y, Season_Code = code, Gross_Sales = gross, Net_Sales = net,
      Stock_Price = Number 721, Stock_Cost = Number 618, Country = c\<rparr>"

subsection \<open>Reference definitions of the specification\<close>

text \<open>
  The season classifier as the specification words it (section 4.3), for comparison with
  \<^const>\<open>parseSeason\<close>. The type comes from the last character of the code, the year from
  the characters before it (a non-empty run of digits, read in base ten), the bucket from the
  difference of the years. The bucket is given by cases on the difference, so the reference
  definition is a relation between the inputs and a \<^typ>\<open>SeasonInfo\<close>.
\<close>

definition spec_seasonType :: "char \<Rightarrow> SeasonType" where
  "spec_seasonType c =
     (if c = CHR ''F'' then FW else if c = CHR ''S'' then S else if c = CHR ''N'' then ACC
      else OTHER)"

definition spec_seasonYear :: "string \<Rightarrow> int option" where
  "spec_seasonYear yearPart =
     (if yearPart \<noteq> [] \<and> list_all is_digit yearPart then Some (digits_val yearPart) else None)"

definition spec_yearBucket :: "SeasonType \<Rightarrow> int option \<Rightarrow> int \<Rightarrow> YearBucket \<Rightarrow> bool" where
  "spec_yearBucket t y currentFiscalYear b \<longleftrightarrow>
     (if t = FW \<and> y \<noteq> None then
        (let diff = currentFiscalYear - the y
         in (diff \<le> 0 \<longrightarrow> b = InSeason) \<and> (diff = 1 \<longrightarrow> b = Y1) \<and>
            (diff = 2 \<longrightarrow> b = Y2) \<and> (3 \<le> diff \<longrightarrow> b = Y3Plus))
      else b = InSeason)"

definition parseSeason_spec :: "string option \<Rightarrow> int \<Rightarrow> SeasonInfo \<Rightarrow> bool" where
  "parseSeason_spec code currentFiscalYear info \<longleftrightarrow>
     (if code = None \<or> code = Some [] then
        seasonType info = OTHER \<and> seasonYear info = None \<and> yearBucket info = InSeason
      else
        seasonType info = spec_seasonType (last (the code)) \<and>
        seasonYear info = spec_seasonYear (butlast (the code)) \<and>
        spec_yearBucket (seasonType info) (seasonYear info) currentFiscalYear (yearBucket info))"

text \<open>
  The cleaning of a numeric cell as the specification words it (section 4.1): white space
  and comma thousands-separators are taken out, wherever they stand.
\<close>

definition spec_cleaned :: "string \<Rightarrow> string" where
  "spec_cleaned s = filter (\<lambda>c. \<not> is_space c \<and> c \<noteq> CHR '','') s"

text \<open>
  The characters a decimal literal can start with: a digit, a sign, the decimal point, or
  the first letter of \<^verbatim>\<open>Infinity\<close>. A text that starts otherwise is not numeric.
\<close>

definition numeric_start :: "char \<Rightarrow> bool" where
  "numeric_start c \<longleftrightarrow>
     is_digit c \<or> c = CHR ''+'' \<or> c = CHR ''-'' \<or> c = CHR ''.'' \<or> c = CHR ''I''"

text \<open>
  The data-row rule of the tokenizer as the specification words it (section 4.2, step 5).
  A line is accepted when it is not blank and has at least as many fields as there are
  headers less one. The fields of an accepted line are cut or filled with empty strings to
  the number of headers and zipped with the headers into a mapping; where a header occurs
  twice the later column is the one the mapping keeps.
\<close>

definition spec_accept :: "string list \<Rightarrow> string \<Rightarrow> bool" where
  "spec_accept headers l \<longleftrightarrow>
     trim l \<noteq> [] \<and> int (length headers) - 1 \<le> int (length (parseCSVLine (trim l)))"

definition spec_padded :: "nat \<Rightarrow> string list \<Rightarrow> string list" where
  "spec_padded n vals = take n (vals @ replicate (n - length vals) [])"

definition spec_zipRow :: "string list \<Rightarrow> string list \<Rightarrow> csv_row" where
  "spec_zipRow headers vals = map_of (rev (zip headers (spec_padded (length headers) vals)))"

text \<open>The rate table of the specification (section 4.4).\<close>

definition spec_fxRate :: "string \<Rightarrow> real" where
  "spec_fxRate c =
     (if c = ''HK'' then 1.0 else if c = ''MC'' then 1.03 else if c = ''TW'' then 4.02 else 1.0)"

text \<open>The truth table of the off-season predicate (section 8), one line for each pair.\<close>

fun isOffSeasonFW_table :: "SeasonType \<Rightarrow> YearBucket \<Rightarrow> bool" where
  "isOffSeasonFW_table FW InSeason = False"
| "isOffSeasonFW_table FW Y1 = True"
| "isOffSeasonFW_table FW Y2 = True"
| "isOffSeasonFW_table FW Y3Plus = True"
| "isOffSeasonFW_table S InSeason = False"
| "isOffSeasonFW_table S Y1 = False"
| "isOffSeasonFW_table S Y2 = False"
| "isOffSeasonFW_table S Y3Plus = False"
| "isOffSeasonFW_table ACC InSeason = False"
| "isOffSeasonFW_table ACC Y1 = False"
| "isOffSeasonFW_table ACC Y2 = False"
| "isOffSeasonFW_table ACC Y3Plus = False"
| "isOffSeasonFW_table OTHER InSeason = False"
| "isOffSeasonFW_table OTHER Y1 = False"
| "isOffSeasonFW_table OTHER Y2 = False"
| "isOffSeasonFW_table OTHER Y3Plus = False"

section \<open>Properties\<close>

subsection \<open>Strings and digits\<close>

lemma is_digit_not_space: "is_digit c \<Longrightarrow> \<not> is_space c"
  by (auto simp: is_digit_def is_space_def)

lemma is_digit_not_sign: "is_digit c \<Longrightarrow> c \<noteq> CHR ''+'' \<and> c \<noteq> CHR ''-''"
  by (auto simp: is_digit_def)

lemma takeWhile_all_digits: "list_all is_digit s \<Longrightarrow> takeWhile is_digit s = s"
  by (induction s) auto

lemma signed_digits_all_digits:
  assumes "all_digits s"
  shows "signed_digits s = Some (digits_val s)"
proof -
  from assms obtain c cs where s: "s = c # cs" and c: "is_digit c" and cs: "list_all is_digit cs"
    by (cases s) (auto simp: all_digits_def)
  from c have "c \<noteq> CHR ''+''" "c \<noteq> CHR ''-''"
    using is_digit_not_sign by blast+
  moreover have "takeWhile is_digit (c # cs) = c # cs"
    using c cs by (simp add: takeWhile_all_digits)
  ultimately show ?thesis
    unfolding signed_digits_def s by (simp add: Let_def)
qed

lemma js_parseInt10_all_digits:
  assumes "all_digits s"
  shows "js_parseInt10 s = Some (digits_val s)"
proof -
  from assms obtain c cs where s: "s = c # cs" and c: "is_digit c"
    by (cases s) (auto simp: all_digits_def)
  then have "dropWhile is_space s = s"
    by (simp add: is_digit_not_space)
  then show ?thesis
    by (simp add: js_parseInt10_def signed_digits_all_digits [OF assms])
qed

lemma rev_dropWhile_rev_Cons:
  assumes "\<not> P x"
  shows "\<exists>ys. rev (dropWhile P (rev (x # xs))) = x # ys"
proof (cases "\<forall>y\<in>set (rev xs). P y")
  case True
  then have "dropWhile P (rev xs @ [x]) = dropWhile P [x]"
    by (intro dropWhile_append2) blast
  with assms show ?thesis by simp
next
  case False
  then obtain y where "y \<in> set (rev xs)" "\<not> P y" by blast
  then have "dropWhile P (rev xs @ [x]) = dropWhile P (rev xs) @ [x]"
    by (rule dropWhile_append1)
  then show ?thesis by simp
qed

lemma dropWhile_space_trim: "dropWhile is_space (trim s) = trim s"
proof (cases "dropWhile is_space s")
  case Nil
  show ?thesis unfolding trim_def Nil by simp
next
  case (Cons x xs)
  then have nx: "\<not> is_space x"
    by (metis hd_dropWhile list.sel(1) list.distinct(1))
  from rev_dropWhile_rev_Cons [of is_space x xs, OF nx] obtain ys where "trim s = x # ys"
    unfolding trim_def Cons by blast
  then show ?thesis using nx by simp
qed

lemma trim_trim: "trim (trim s) = trim s"
proof -
  have "dropWhile is_space (rev (trim s)) = rev (trim s)"
    by (simp add: trim_def dropWhile_idem)
  then show ?thesis
    using dropWhile_space_trim [of s] by (simp add: trim_def)
qed

subsection \<open>The season classifier\<close>

lemma parseSeason_trimmed:
  "parseSeason code cur = parseSeason (Some (trim (case code of None \<Rightarrow> [] | Some c \<Rightarrow> c))) cur"
  by (simp add: parseSeason_def trim_trim)

lemma spec_seasonYear_eq:
  "spec_seasonYear yp = (if all_digits yp then js_parseInt10 yp else None)"
  by (simp add: spec_seasonYear_def all_digits_def js_parseInt10_all_digits)

text \<open>
  On a code that carries no white space at either end, the classifier returns what the
  reference definition gives for that very code.
\<close>

lemma parseSeason_spec_nonempty:
  assumes "c \<noteq> []" and "trim c = c"
  shows "parseSeason_spec (Some c) cur (parseSeason (Some c) cur)"
  using assms
  by (simp add: parseSeason_spec_def parseSeason_def Let_def spec_seasonType_def
      spec_seasonYear_eq spec_yearBucket_def)

lemma parseSeason_spec_empty:
  "parseSeason_spec (Some []) cur (parseSeason (Some []) cur)"
  by (simp add: parseSeason_spec_def parseSeason_def trim_def)

text \<open>The reference definition determines the type, the year and the bucket.\<close>

lemma parseSeason_spec_functional:
  assumes "parseSeason_spec code cur i" and "parseSeason_spec code cur j"
  shows "seasonType i = seasonType j \<and> seasonYear i = seasonYear j \<and> yearBucket i = yearBucket j"
proof (cases "code = None \<or> code = Some []")
  case True
  with assms show ?thesis by (simp add: parseSeason_spec_def)
next
  case False
  with assms have ty: "seasonType i = seasonType j" and yr: "seasonYear i = seasonYear j"
    and bi: "spec_yearBucket (seasonType i) (seasonYear i) cur (yearBucket i)"
    and bj: "spec_yearBucket (seasonType i) (seasonYear i) cur (yearBucket j)"
    by (auto simp: parseSeason_spec_def)
  have "yearBucket i = yearBucket j"
  proof (cases "seasonType i = FW \<and> seasonYear i \<noteq> None")
    case True
    let ?d = "cur - the (seasonYear i)"
    consider "?d \<le> 0" | "?d = 1" | "?d = 2" | "3 \<le> ?d" by linarith
    then show ?thesis
      using bi bj True by cases (simp_all add: spec_yearBucket_def Let_def)
  next
    case False
    with bi bj show ?thesis by (auto simp: spec_yearBucket_def)
  qed
  with ty yr show ?thesis by simp
qed

text \<open>
  C1, as amended. \<^const>\<open>parseSeason\<close> first trims the white space around the code. For
  every code and every reference fiscal year it then returns the SeasonInfo of the
  reference definition for the trimmed code: an empty, absent or blank code gives type
  \<open>OTHER\<close>, no year and bucket \<open>InSeason\<close>; otherwise the last character of the trimmed code
  gives the type (\<open>F\<close>, \<open>S\<close>, \<open>N\<close>, anything else), the characters before it give the year
  when they are digits and no year otherwise, and a Fall/Winter code with a year is in
  \<open>InSeason\<close>, \<open>Y1\<close>, \<open>Y2\<close> or \<open>Y3Plus\<close> as the difference of the years is at most 0, is 1,
  is 2, or is 3 or more, every other code being \<open>InSeason\<close>. The stored season code is the
  trimmed code.
\<close>

theorem parseSeason_refines_spec_after_trim:
  "parseSeason_spec (Some (trim (case code of None \<Rightarrow> [] | Some c \<Rightarrow> c))) cur (parseSeason code cur)
   \<and> SeasonInfo.seasonCode (parseSeason code cur) = trim (case code of None \<Rightarrow> [] | Some c \<Rightarrow> c)"
proof -
  let ?t = "trim (case code of None \<Rightarrow> [] | Some c \<Rightarrow> c)"
  have "parseSeason_spec (Some ?t) cur (parseSeason (Some ?t) cur)"
    by (cases "?t = []") (simp_all add: parseSeason_spec_empty parseSeason_spec_nonempty trim_trim)
  moreover have "SeasonInfo.seasonCode (parseSeason code cur) = ?t"
    by (simp add: parseSeason_def Let_def)
  ultimately show ?thesis
    using parseSeason_trimmed [of code cur] by simp
qed

theorem parseSeason_refines_spec_after_trim_witness:
  "seasonType (parseSeason (Some '' 24F '') 25) = FW \<and>
   seasonYear (parseSeason (Some '' 24F '') 25) = Some 24 \<and>
   yearBucket (parseSeason (Some '' 24F '') 25) = Y1 \<and>
   yearBucket (parseSeason (Some ''25F'') 25) = InSeason \<and>
   yearBucket (parseSeason (Some ''23F'') 25) = Y2 \<and>
   yearBucket (parseSeason (Some ''21F'') 25) = Y3Plus \<and>
   SeasonInfo.seasonCode (parseSeason (Some '' 24F '') 25) = ''24F''"
  using parseSeason_refines_spec_after_trim [of "Some '' 24F ''" 25]
    parseSeason_refines_spec_after_trim [of "Some ''25F''" 25]
    parseSeason_refines_spec_after_trim [of "Some ''23F''" 25]
    parseSeason_refines_spec_after_trim [of "Some ''21F''" 25]
  by (auto simp: parseSeason_spec_def spec_seasonType_def spec_seasonYear_def
      spec_yearBucket_def trim_def is_space_def is_digit_def digits_val_def digit_val_def Let_def)

text \<open>
  C1 as it is stated fails on a code with white space at its end: the last character of
  \<open>''24F ''\<close> is a blank, for which the reference definition gives type \<open>OTHER\<close>, while the
  classifier trims the code and answers Fall/Winter, year 24.
\<close>

theorem parseSeason_untrimmed_counterexample:
  "\<not> parseSeason_spec (Some ''24F '') 25 (parseSeason (Some ''24F '') 25)"
  by (simp add: parseSeason_spec_def parseSeason_def spec_seasonType_def trim_def is_space_def
      Let_def)

subsection \<open>The off-season predicate\<close>

text \<open>
  C2. For every row that carries a SeasonInfo, of either arm of the parameter type,
  \<^const>\<open>isOffSeasonFW\<close> is the entry of the truth table for the season type and the year
  bucket of the row's \<open>seasonInfo\<close> field: true exactly when the type is Fall/Winter and
  the bucket is one of \<open>Y1\<close>, \<open>Y2\<close>, \<open>Y3Plus\<close>, false for every other pair. It reads no
  other part of the row: on a row built around a SeasonInfo of type \<open>t\<close> and bucket \<open>b\<close>
  it is the table's entry for \<open>t\<close> and \<open>b\<close>.
\<close>

theorem isOffSeasonFW_truth_table:
  "isOffSeasonFW (Inl r) =
     isOffSeasonFW_table (seasonType (InventoryRow.seasonInfo r))
       (yearBucket (InventoryRow.seasonInfo r))
   \<and> isOffSeasonFW (Inr q) =
     isOffSeasonFW_table (seasonType (SeasonInfoRow.seasonInfo q))
       (yearBucket (SeasonInfoRow.seasonInfo q))
   \<and> (isOffSeasonFW (Inl r) \<longleftrightarrow>
        seasonType (InventoryRow.seasonInfo r) = FW \<and>
        yearBucket (InventoryRow.seasonInfo r) \<in> {Y1, Y2, Y3Plus})
   \<and> (isOffSeasonFW (Inr q) \<longleftrightarrow>
        seasonType (SeasonInfoRow.seasonInfo q) = FW \<and>
        yearBucket (SeasonInfoRow.seasonInfo q) \<in> {Y1, Y2, Y3Plus})
   \<and> isOffSeasonFW
        (Inr \<lparr>SeasonInfoRow.seasonInfo =
                \<lparr>SeasonInfo.seasonCode = c, seasonType = t, seasonYear = y, yearBucket = b\<rparr>\<rparr>)
       = isOffSeasonFW_table t b
   \<and> isOffSeasonFW
        (Inl (applyFxNormalization raw
                \<lparr>SeasonInfo.seasonCode = c, seasonType = t, seasonYear = y, yearBucket = b\<rparr>))
       = isOffSeasonFW_table t b
   \<and> isOffSeasonFW row =
     isOffSeasonFW_table (seasonType (rowSeasonInfo row)) (yearBucket (rowSeasonInfo row))"
proof -
  have tab: "isOffSeasonFW x =
      isOffSeasonFW_table (seasonType (rowSeasonInfo x)) (yearBucket (rowSeasonInfo x))" for x
    by (cases "seasonType (rowSeasonInfo x)"; cases "yearBucket (rowSeasonInfo x)")
       (simp_all add: isOffSeasonFW_def)
  have iff: "isOffSeasonFW_table t' b' \<longleftrightarrow> t' = FW \<and> b' \<in> {Y1, Y2, Y3Plus}" for t' b'
    by (cases t'; cases b') simp_all
  have l: "rowSeasonInfo (Inl r') = InventoryRow.seasonInfo r'" for r'
    by (simp add: rowSeasonInfo_def)
  have rr: "rowSeasonInfo (Inr q') = SeasonInfoRow.seasonInfo q'" for q'
    by (simp add: rowSeasonInfo_def)
  have a: "InventoryRow.seasonInfo (applyFxNormalization raw i) = i" for i
    by (simp add: applyFxNormalization_def Let_def InventoryRowRaw.extend_def)
  show ?thesis
    using tab [of row] by (simp add: tab l rr a iff)
qed

theorem isOffSeasonFW_truth_table_witness:
  "map (\<lambda>(t, b). isOffSeasonFW
          (Inr \<lparr>SeasonInfoRow.seasonInfo =
                  \<lparr>SeasonInfo.seasonCode = ''24F'', seasonType = t, seasonYear = Some 24,
                   yearBucket = b\<rparr>\<rparr>))
     [(FW, InSeason), (FW, Y1), (FW, Y2), (FW, Y3Plus),
      (S, InSeason), (S, Y1), (S, Y2), (S, Y3Plus),
      (ACC, InSeason), (ACC, Y1), (ACC, Y2), (ACC, Y3Plus),
      (OTHER, InSeason), (OTHER, Y1), (OTHER, Y2), (OTHER, Y3Plus)]
   = [False, True, True, True, False, False, False, False,
      False, False, False, False, False, False, False, False]
   \<and> map (\<lambda>(t, b). isOffSeasonFW
          (Inl (applyFxNormalization (sampleRaw ''HK'' (Number 1000) (Number 900))
                  \<lparr>SeasonInfo.seasonCode = ''24F'', seasonType = t, seasonYear = Some 24,
                   yearBucket = b\<rparr>)))
     [(FW, InSeason), (FW, Y1), (FW, Y2), (FW, Y3Plus),
      (S, InSeason), (S, Y1), (S, Y2), (S, Y3Plus),
      (ACC, InSeason), (ACC, Y1), (ACC, Y2), (ACC, Y3Plus),
      (OTHER, InSeason), (OTHER, Y1), (OTHER, Y2), (OTHER, Y3Plus)]
   = [False, True, True, True, False, False, False, False,
      False, False, False, False, False, False, False, False]"
proof -
  have e: "isOffSeasonFW
        (Inr \<lparr>SeasonInfoRow.seasonInfo =
                \<lparr>SeasonInfo.seasonCode = ''24F'', seasonType = t, seasonYear = Some 24,
                 yearBucket = b\<rparr>\<rparr>)
       = isOffSeasonFW_table t b"
    "isOffSeasonFW
        (Inl (applyFxNormalization (sampleRaw ''HK'' (Number 1000) (Number 900))
                \<lparr>SeasonInfo.seasonCode = ''24F'', seasonType = t, seasonYear = Some 24,
                 yearBucket = b\<rparr>))
       = isOffSeasonFW_table t b" for t b
    using isOffSeasonFW_truth_table
      [of _ _ "''24F''" t "Some 24" b "sampleRaw ''HK'' (Number 1000) (Number 900)"]
    by blast+
  show ?thesis
    by (simp add: e)
qed

text \<open>
  C8. Every SeasonInfo that \<^const>\<open>parseSeason\<close> returns has bucket \<open>InSeason\<close> when its type
  is not Fall/Winter or its year is null; so for a row whose SeasonInfo came from
  \<^const>\<open>parseSeason\<close>, \<^const>\<open>isOffSeasonFW\<close> holds exactly when the bucket is not \<open>InSeason\<close>.
\<close>

theorem parseSeason_bucket_invariant:
  "(seasonType (parseSeason code cur) \<noteq> FW \<or> seasonYear (parseSeason code cur) = None
      \<longrightarrow> yearBucket (parseSeason code cur) = InSeason)
   \<and> (rowSeasonInfo row = parseSeason code cur
      \<longrightarrow> (isOffSeasonFW row \<longleftrightarrow> yearBucket (parseSeason code cur) \<noteq> InSeason))"
proof -
  have a: "seasonType (parseSeason code cur) \<noteq> FW \<or> seasonYear (parseSeason code cur) = None
      \<Longrightarrow> yearBucket (parseSeason code cur) = InSeason"
    by (auto simp: parseSeason_def Let_def split: if_splits)
  have b: "yearBucket (parseSeason code cur) \<noteq> InSeason \<Longrightarrow> seasonType (parseSeason code cur) = FW"
    using a by blast
  have "isOffSeasonFW row \<longleftrightarrow> yearBucket (parseSeason code cur) \<noteq> InSeason"
    if "rowSeasonInfo row = parseSeason code cur"
    using that b by (cases "yearBucket (parseSeason code cur)") (auto simp: isOffSeasonFW_def)
  with a show ?thesis by blast
qed

theorem parseSeason_bucket_invariant_witness:
  "seasonType (parseSeason (Some ''24S'') 25) \<noteq> FW \<and>
   yearBucket (parseSeason (Some ''24S'') 25) = InSeason \<and>
   \<not> isOffSeasonFW (Inr \<lparr>SeasonInfoRow.seasonInfo = parseSeason (Some ''24S'') 25\<rparr>) \<and>
   yearBucket (parseSeason (Some ''24F'') 25) \<noteq> InSeason \<and>
   isOffSeasonFW (Inr \<lparr>SeasonInfoRow.seasonInfo = parseSeason (Some ''24F'') 25\<rparr>)"
proof -
  have t: "seasonType (parseSeason (Some ''24S'') 25) \<noteq> FW"
    by (simp add: parseSeason_def trim_def is_space_def Let_def)
  have f: "yearBucket (parseSeason (Some ''24F'') 25) \<noteq> InSeason"
    by code_simp
  show ?thesis
    using t f
      parseSeason_bucket_invariant [of "Some ''24S''" 25
        "Inr \<lparr>SeasonInfoRow.seasonInfo = parseSeason (Some ''24S'') 25\<rparr>"]
      parseSeason_bucket_invariant [of "Some ''24F''" 25
        "Inr \<lparr>SeasonInfoRow.seasonInfo = parseSeason (Some ''24F'') 25\<rparr>"]
    by (simp add: rowSeasonInfo_def)
qed

subsection \<open>Rounding to binary64\<close>

lemmas round64_eval =
  round64_def b64_exponent_def pow2_def round_half_even_def bit_length.simps Let_def

lemmas b64_eval = b64_exponent_def pow2_def round_half_even_def bit_length.simps Let_def

text \<open>
  The value of \<^const>\<open>round64\<close> from the exponent \<open>e\<close> and the rounded significand \<open>n\<close>, for
  evaluating a rounding step by step.
\<close>

lemma round64_finite:
  assumes "x \<noteq> 0" and "b64_exponent \<bar>x\<bar> = e"
    and "round_half_even (x / pow2 (e - 52)) = n"
    and "of_int n * pow2 (e - 52) = r" and "r < 2 ^ 1024" and "- (2 ^ 1024) < r"
  shows "round64 x = Number r"
  using assms by (simp add: round64_def Let_def pow2_def)

lemma js_div_finite:
  assumes "a / b \<noteq> 0" and "b64_exponent \<bar>a / b\<bar> = e"
    and "round_half_even (a / b / pow2 (e - 52)) = n"
    and "of_int n * pow2 (e - 52) = r" and "r < 2 ^ 1024" and "- (2 ^ 1024) < r"
  shows "js_div (Number a) (Number b) = Number r"
proof -
  from assms(1) have "b \<noteq> 0" by auto
  then show ?thesis
    using round64_finite [OF assms] by simp
qed


lemma round64_small_integers:
  "round64 0 = Number 0" "round64 1 = Number 1" "round64 12 = Number 12"
  "round64 1234 = Number 1234" "round64 (2469 / 2) = Number (2469 / 2)"
  by (simp_all add: round64_eval)

lemma js_literal_1: "js_literal 1 = Number 1"
  by (simp add: js_literal_def round64_small_integers)

lemma js_literal_1_03: "js_literal 1.03 = Number (4638707616191611 / 4503599627370496)"
  unfolding js_literal_def
  by (rule round64_finite [where e = "0" and n = 4638707616191611]) (simp_all add: b64_eval)

lemma js_literal_4_02: "js_literal 4.02 = Number (1131529406376837 / 281474976710656)"
  unfolding js_literal_def
  by (rule round64_finite [where e = "2" and n = 4526117625507348]) (simp_all add: b64_eval)


lemma div_1030_by_1_03: "js_div (Number 1030) (Number (4638707616191611 / 4503599627370496)) = Number 1000"
  by (rule js_div_finite [where e = "9" and n = 8796093022208000]) (simp_all add: b64_eval)

lemma div_927_by_1_03: "js_div (Number 927) (Number (4638707616191611 / 4503599627370496)) = Number 900"
  by (rule js_div_finite [where e = "9" and n = 7916483719987200]) (simp_all add: b64_eval)

lemma div_721_by_1_03: "js_div (Number 721) (Number (4638707616191611 / 4503599627370496)) = Number 700"
  by (rule js_div_finite [where e = "9" and n = 6157265115545600]) (simp_all add: b64_eval)

lemma div_618_by_1_03: "js_div (Number 618) (Number (4638707616191611 / 4503599627370496)) = Number 600"
  by (rule js_div_finite [where e = "9" and n = 5277655813324800]) (simp_all add: b64_eval)

lemma div_412_by_1_03: "js_div (Number 412) (Number (4638707616191611 / 4503599627370496)) = Number 400"
  by (rule js_div_finite [where e = "8" and n = 7036874417766400]) (simp_all add: b64_eval)

lemma div_206_by_1_03: "js_div (Number 206) (Number (4638707616191611 / 4503599627370496)) = Number 200"
  by (rule js_div_finite [where e = "7" and n = 7036874417766400]) (simp_all add: b64_eval)

lemma div_103_by_1_03: "js_div (Number 103) (Number (4638707616191611 / 4503599627370496)) = Number 100"
  by (rule js_div_finite [where e = "6" and n = 7036874417766400]) (simp_all add: b64_eval)

lemma div_309_by_1_03: "js_div (Number 309) (Number (4638707616191611 / 4503599627370496)) = Number 300"
  by (rule js_div_finite [where e = "8" and n = 5277655813324800]) (simp_all add: b64_eval)

lemma div_515_by_1_03: "js_div (Number 515) (Number (4638707616191611 / 4503599627370496)) = Number 500"
  by (rule js_div_finite [where e = "8" and n = 8796093022208000]) (simp_all add: b64_eval)

lemma div_4020_by_4_02: "js_div (Number 4020) (Number (1131529406376837 / 281474976710656)) = Number (8796093022208001 / 8796093022208)"
  by (rule js_div_finite [where e = "9" and n = 8796093022208001]) (simp_all add: b64_eval)



lemmas div_by_1_03 = div_1030_by_1_03 div_927_by_1_03 div_721_by_1_03 div_618_by_1_03 div_412_by_1_03 div_206_by_1_03 div_103_by_1_03 div_309_by_1_03 div_515_by_1_03

text \<open>Dividing a binary64 value by one gives the value back.\<close>

lemma js_div_one: "is_binary64 x \<Longrightarrow> js_div x (Number 1) = x"
  by (cases x) (simp_all add: is_binary64_def)

subsection \<open>Primitive parsers\<close>

lemma filter_nonspace_dropWhile:
  "filter (\<lambda>c. \<not> is_space c) (dropWhile is_space s) = filter (\<lambda>c. \<not> is_space c) s"
  by (induction s) simp_all

lemma filter_nonspace_trim:
  "filter (\<lambda>c. \<not> is_space c) (trim s) = filter (\<lambda>c. \<not> is_space c) s"
proof -
  have "filter (\<lambda>c. \<not> is_space c) (trim s) =
        rev (filter (\<lambda>c. \<not> is_space c) (dropWhile is_space (rev (dropWhile is_space s))))"
    by (simp add: trim_def rev_filter)
  also have "\<dots> = rev (filter (\<lambda>c. \<not> is_space c) (rev (dropWhile is_space s)))"
    by (simp only: filter_nonspace_dropWhile)
  also have "\<dots> = filter (\<lambda>c. \<not> is_space c) (dropWhile is_space s)"
    by (simp add: rev_filter)
  finally show ?thesis
    by (simp only: filter_nonspace_dropWhile)
qed

lemma cleaned_eq_spec:
  "filter (\<lambda>c. \<not> is_space c) (filter (\<lambda>c. c \<noteq> CHR '','') (trim s)) = spec_cleaned s"
proof -
  have "filter (\<lambda>c. \<not> is_space c) (filter (\<lambda>c. c \<noteq> CHR '','') (trim s)) =
        filter (\<lambda>c. c \<noteq> CHR '','') (filter (\<lambda>c. \<not> is_space c) (trim s))"
    by (simp add: conj_commute)
  then show ?thesis
    by (simp add: filter_nonspace_trim spec_cleaned_def conj_commute)
qed

lemma parseNumber_Some:
  "s \<noteq> [] \<Longrightarrow> parseNumber (Some s) =
     Inr (if js_parseFloat (spec_cleaned s) = NaN then Number 0 else js_parseFloat (spec_cleaned s))"
  by (simp add: parseNumber_def truthy_def Let_def isNaN_def cleaned_eq_spec del: filter_filter)

lemma parseNumber_falsy:
  "parseNumber None = Inr (Number 0)" "parseNumber (Some []) = Inr (Number 0)"
  by (simp_all add: parseNumber_def truthy_def)

lemma parseNumber_returns: "\<exists>n. parseNumber v = Inr n \<and> n \<noteq> NaN"
proof (cases v)
  case None
  then show ?thesis by (simp add: parseNumber_falsy)
next
  case (Some t)
  then show ?thesis
    by (cases "t = []") (simp_all add: parseNumber_falsy parseNumber_Some)
qed

lemma js_parseFloat_not_numeric:
  assumes "t = [] \<or> (\<not> numeric_start (hd t) \<and> \<not> is_space (hd t))"
  shows "js_parseFloat t = NaN"
proof (cases t)
  case Nil
  then show ?thesis by (simp add: js_parseFloat_def)
next
  case (Cons c cs)
  with assms have c: "\<not> is_digit c" "c \<noteq> CHR ''+''" "c \<noteq> CHR ''-''" "c \<noteq> CHR ''.''"
    "c \<noteq> CHR ''I''" "\<not> is_space c"
    by (auto simp: numeric_start_def)
  then show ?thesis
    unfolding Cons js_parseFloat_def by (simp add: Let_def)
qed

lemma spec_cleaned_no_space: "c \<in> set (spec_cleaned s) \<Longrightarrow> \<not> is_space c"
  by (simp add: spec_cleaned_def)


text \<open>
  C7. \<^const>\<open>parseNumber\<close> returns a number on every input, null and undefined included, and
  raises nothing; the number is never \<^verbatim>\<open>NaN\<close>. It is 0 for null, for the empty string and for
  every text in which \<^verbatim>\<open>parseFloat\<close> finds no number once commas and white space are taken
  out, in particular for every text that does not start like a number. Otherwise it is
  what \<^verbatim>\<open>parseFloat\<close> reads in the text without its commas and white space:
  \<open>1,234.5\<close> gives 1234.5 and \<open>  12 34 \<close> gives 1234.
\<close>

theorem parseNumber_total_zero_on_non_numeric:
  "(\<exists>n. parseNumber v = Inr n \<and> n \<noteq> NaN)
   \<and> parseNumber None = Inr (Number 0)
   \<and> parseNumber (Some []) = Inr (Number 0)
   \<and> (s \<noteq> [] \<longrightarrow> parseNumber (Some s) =
         Inr (if js_parseFloat (spec_cleaned s) = NaN then Number 0
              else js_parseFloat (spec_cleaned s)))
   \<and> (js_parseFloat (spec_cleaned s) = NaN \<longrightarrow> parseNumber (Some s) = Inr (Number 0))
   \<and> (spec_cleaned s = [] \<or> \<not> numeric_start (hd (spec_cleaned s))
         \<longrightarrow> parseNumber (Some s) = Inr (Number 0))
   \<and> parseNumber (Some ''1,234.5'') = Inr (Number 1234.5)
   \<and> parseNumber (Some ''  12 34 '') = Inr (Number 1234)"
proof -
  have total: "\<exists>n. parseNumber v = Inr n \<and> n \<noteq> NaN"
    by (rule parseNumber_returns)
  have nan: "parseNumber (Some s) = Inr (Number 0)" if "js_parseFloat (spec_cleaned s) = NaN"
    using that by (cases "s = []") (simp_all add: parseNumber_falsy parseNumber_Some)
  have nonnum: "parseNumber (Some s) = Inr (Number 0)"
    if "spec_cleaned s = [] \<or> \<not> numeric_start (hd (spec_cleaned s))"
  proof -
    have "spec_cleaned s = [] \<or>
          (\<not> numeric_start (hd (spec_cleaned s)) \<and> \<not> is_space (hd (spec_cleaned s)))"
      using that spec_cleaned_no_space [of "hd (spec_cleaned s)" s] by auto
    then show ?thesis by (intro nan js_parseFloat_not_numeric)
  qed
  have e1: "parseNumber (Some ''1,234.5'') = Inr (Number 1234.5)"
    by (simp add: parseNumber_def truthy_def trim_def is_space_def js_parseFloat_def Let_def
        is_digit_def isNaN_def digits_val_def digit_val_def exponent_part_def pow10_def
        round64_small_integers)
  have e2: "parseNumber (Some ''  12 34 '') = Inr (Number 1234)"
    by (simp add: parseNumber_def truthy_def trim_def is_space_def js_parseFloat_def Let_def
        is_digit_def isNaN_def digits_val_def digit_val_def exponent_part_def pow10_def
        round64_small_integers)
  show ?thesis
    using total nan nonnum e1 e2 by (simp add: parseNumber_falsy parseNumber_Some)
qed

theorem parseNumber_total_zero_on_non_numeric_witness:
  "parseNumber (Some ''abc'') = Inr (Number 0)
   \<and> parseNumber (Some ''N/A'') = Inr (Number 0)
   \<and> parseNumber (Some '' , '') = Inr (Number 0)
   \<and> parseNumber (Some ''-'') = Inr (Number 0)
   \<and> parseNumber (Some ''1,234.5'') = Inr (Number 1234.5)
   \<and> parseNumber (Some ''12abc'') = Inr (Number 12)"
proof -
  have c: "spec_cleaned ''abc'' = ''abc''" "spec_cleaned ''N/A'' = ''N/A''"
    "spec_cleaned '' , '' = []" "spec_cleaned ''-'' = ''-''" "spec_cleaned ''12abc'' = ''12abc''"
    by (simp_all add: spec_cleaned_def is_space_def)
  have n: "\<not> numeric_start (CHR ''a'')" "\<not> numeric_start (CHR ''N'')"
    by (simp_all add: numeric_start_def is_digit_def)
  have f: "js_parseFloat ''-'' = NaN" "js_parseFloat ''12abc'' = Number 12"
    by (simp_all add: js_parseFloat_def is_space_def Let_def is_digit_def digits_val_def
        digit_val_def exponent_part_def pow10_def round64_small_integers)
  have "parseNumber (Some ''abc'') = Inr (Number 0)"
    using c n parseNumber_total_zero_on_non_numeric [of "Some ''abc''" "''abc''"] by auto
  moreover have "parseNumber (Some ''N/A'') = Inr (Number 0)"
    using c n parseNumber_total_zero_on_non_numeric [of "Some ''abc''" "''N/A''"] by auto
  moreover have "parseNumber (Some '' , '') = Inr (Number 0)"
    using c parseNumber_total_zero_on_non_numeric [of "Some ''abc''" "'' , ''"] by auto
  moreover have "parseNumber (Some ''-'') = Inr (Number 0)"
    using c f parseNumber_total_zero_on_non_numeric [of "Some ''abc''" "''-''"] by auto
  moreover have "parseNumber (Some ''12abc'') = Inr (Number 12)"
    using c f parseNumber_total_zero_on_non_numeric [of "Some ''abc''" "''12abc''"] by auto
  moreover have "parseNumber (Some ''1,234.5'') = Inr (Number 1234.5)"
    using parseNumber_total_zero_on_non_numeric [of "Some ''abc''" "''abc''"] by blast
  ultimately show ?thesis by blast
qed

subsection \<open>The FX normalizer\<close>

lemma map_js_div_one:
  "list_all is_binary64 xs \<Longrightarrow> map (\<lambda>v. js_div v (Number 1)) xs = xs"
  by (induction xs) (simp_all add: js_div_one)

lemma applyFx_fxRate:
  "fxRate (applyFxNormalization row info) = js_literal (spec_fxRate (InventoryRowRaw.country row))"
  by (simp add: applyFxNormalization_def Let_def spec_fxRate_def InventoryRowRaw.extend_def
      js_literal_1)

lemma applyFx_HK:
  "InventoryRowRaw.country row = ''HK'' \<Longrightarrow>
     normalizedMonetaryFields (applyFxNormalization row info) = rawMonetaryFields row"
  by (simp add: applyFxNormalization_def Let_def normalizedMonetaryFields_def
      rawMonetaryFields_def InventoryRowRaw.extend_def)

lemma applyFx_not_HK:
  "InventoryRowRaw.country row \<noteq> ''HK'' \<Longrightarrow>
     normalizedMonetaryFields (applyFxNormalization row info) =
       map (\<lambda>v. js_div v (js_literal (spec_fxRate (InventoryRowRaw.country row))))
         (rawMonetaryFields row)"
  by (simp add: applyFxNormalization_def Let_def normalizedMonetaryFields_def
      rawMonetaryFields_def spec_fxRate_def InventoryRowRaw.extend_def js_literal_1)

text \<open>
  C4. For every raw inventory row the resolved FX rate is the rate of the table for the
  row's country (\<open>HK\<close> 1.0, \<open>MC\<close> 1.03, \<open>TW\<close> 4.02, any other country 1.0), and each of
  the nine normalized monetary fields is the raw field divided by that rate: for \<open>HK\<close> and
  for a country that is not in the table the normalized fields equal the raw ones, for
  \<open>MC\<close> they are the raw ones divided by 1.03, for \<open>TW\<close> divided by 4.02. The rates are
  the numbers the literals denote and the division is the binary64 one. For \<open>HK\<close> the code
  passes the value through; where it divides by 1, the quotient is the raw value because
  the raw value is a binary64 number, as every number of the program is.
\<close>

theorem applyFxNormalization_rate_table:
  "fxRate (applyFxNormalization row info) = js_literal (spec_fxRate (InventoryRowRaw.country row))
   \<and> spec_fxRate ''HK'' = 1 \<and> spec_fxRate ''MC'' = 1.03 \<and> spec_fxRate ''TW'' = 4.02
   \<and> (InventoryRowRaw.country row \<notin> {''HK'', ''MC'', ''TW''}
        \<longrightarrow> spec_fxRate (InventoryRowRaw.country row) = 1)
   \<and> (InventoryRowRaw.country row \<noteq> ''HK''
        \<longrightarrow> normalizedMonetaryFields (applyFxNormalization row info) =
            map (\<lambda>v. js_div v (fxRate (applyFxNormalization row info))) (rawMonetaryFields row))
   \<and> (list_all is_binary64 (rawMonetaryFields row)
        \<longrightarrow> normalizedMonetaryFields (applyFxNormalization row info) =
            map (\<lambda>v. js_div v (fxRate (applyFxNormalization row info))) (rawMonetaryFields row))
   \<and> (InventoryRowRaw.country row = ''HK''
        \<longrightarrow> normalizedMonetaryFields (applyFxNormalization row info) = rawMonetaryFields row)
   \<and> (InventoryRowRaw.country row \<notin> {''MC'', ''TW''} \<and> list_all is_binary64 (rawMonetaryFields row)
        \<longrightarrow> normalizedMonetaryFields (applyFxNormalization row info) = rawMonetaryFields row)
   \<and> (InventoryRowRaw.country row = ''MC''
        \<longrightarrow> normalizedMonetaryFields (applyFxNormalization row info) =
            map (\<lambda>v. js_div v (js_literal 1.03)) (rawMonetaryFields row))
   \<and> (InventoryRowRaw.country row = ''TW''
        \<longrightarrow> normalizedMonetaryFields (applyFxNormalization row info) =
            map (\<lambda>v. js_div v (js_literal 4.02)) (rawMonetaryFields row))"
proof -
  let ?c = "InventoryRowRaw.country row"
  let ?n = "normalizedMonetaryFields (applyFxNormalization row info)"
  let ?raw = "rawMonetaryFields row"
  have t: "spec_fxRate ''HK'' = 1" "spec_fxRate ''MC'' = 1.03" "spec_fxRate ''TW'' = 4.02"
    "?c \<notin> {''HK'', ''MC'', ''TW''} \<Longrightarrow> spec_fxRate ?c = 1"
    by (simp_all add: spec_fxRate_def)
  have one: "?c \<notin> {''MC'', ''TW''} \<Longrightarrow> js_literal (spec_fxRate ?c) = Number 1"
    by (auto simp: spec_fxRate_def js_literal_1)
  have d: "?n = map (\<lambda>v. js_div v (fxRate (applyFxNormalization row info))) ?raw"
    if "?c \<noteq> ''HK''"
    using that by (simp add: applyFx_not_HK applyFx_fxRate)
  have b: "?n = map (\<lambda>v. js_div v (fxRate (applyFxNormalization row info))) ?raw"
    if "list_all is_binary64 ?raw"
  proof (cases "?c = ''HK''")
    case True
    then show ?thesis
      using that one by (simp add: applyFx_HK applyFx_fxRate map_js_div_one)
  next
    case False
    then show ?thesis by (rule d)
  qed
  have e: "?n = ?raw" if "?c \<notin> {''MC'', ''TW''} \<and> list_all is_binary64 ?raw"
    using that b one by (simp add: applyFx_fxRate map_js_div_one)
  have m: "?n = map (\<lambda>v. js_div v (js_literal 1.03)) ?raw" if "?c = ''MC''"
    using that by (simp add: applyFx_not_HK t)
  have w: "?n = map (\<lambda>v. js_div v (js_literal 4.02)) ?raw" if "?c = ''TW''"
    using that by (simp add: applyFx_not_HK t)
  show ?thesis
    using t d b e m w applyFx_fxRate [of row info] applyFx_HK [of row info] by blast
qed

lemma sampleRaw_binary64: "list_all is_binary64 (rawMonetaryFields (sampleRaw c (Number 1030) (Number 927)))"
  by (simp add: sampleRaw_def rawMonetaryFields_def is_binary64_def round64_eval)

theorem applyFxNormalization_rate_table_witness:
  "normalizedMonetaryFields
     (applyFxNormalization (sampleRaw ''MC'' (Number 1030) (Number 927)) (parseSeason (Some ''24F'') 25))
     = [Number 1000, Number 900, Number 700, Number 600, Number 400, Number 200, Number 100,
        Number 300, Number 500]
   \<and> normalizedMonetaryFields
     (applyFxNormalization (sampleRaw ''TW'' (Number 4020) (Number 2010)) (parseSeason (Some ''24F'') 25))
     = map (\<lambda>v. js_div v (js_literal 4.02)) (rawMonetaryFields (sampleRaw ''TW'' (Number 4020) (Number 2010)))
   \<and> InventoryRow.grossSalesFx
     (applyFxNormalization (sampleRaw ''TW'' (Number 4020) (Number 2010)) (parseSeason (Some ''24F'') 25))
     = Number (8796093022208001 / 8796093022208)
   \<and> normalizedMonetaryFields
     (applyFxNormalization (sampleRaw ''JP'' (Number 1030) (Number 927)) (parseSeason (Some ''24F'') 25))
     = rawMonetaryFields (sampleRaw ''JP'' (Number 1030) (Number 927))
   \<and> normalizedMonetaryFields
     (applyFxNormalization (sampleRaw ''HK'' (Number 1030) (Number 927)) (parseSeason (Some ''24F'') 25))
     = rawMonetaryFields (sampleRaw ''HK'' (Number 1030) (Number 927))"
proof -
  let ?i = "parseSeason (Some ''24F'') 25"
  have d: "map (\<lambda>v. js_div v (js_literal 1.03))
             (rawMonetaryFields (sampleRaw ''MC'' (Number 1030) (Number 927)))
           = [Number 1000, Number 900, Number 700, Number 600, Number 400, Number 200,
              Number 100, Number 300, Number 500]"
    unfolding js_literal_1_03
    by (simp add: sampleRaw_def rawMonetaryFields_def div_by_1_03 del: js_div.simps)
  have g: "js_div (Number 4020) (js_literal 4.02) = Number (8796093022208001 / 8796093022208)"
    unfolding js_literal_4_02 by (rule div_4020_by_4_02)
  have c: "InventoryRowRaw.country (sampleRaw x a b) = x" for x a b
    by (simp add: sampleRaw_def)
  let ?mc = "sampleRaw ''MC'' (Number 1030) (Number 927)"
  let ?tw = "sampleRaw ''TW'' (Number 4020) (Number 2010)"
  let ?jp = "sampleRaw ''JP'' (Number 1030) (Number 927)"
  let ?hk = "sampleRaw ''HK'' (Number 1030) (Number 927)"
  have "InventoryRowRaw.country ?mc = ''MC'' \<longrightarrow>
      normalizedMonetaryFields (applyFxNormalization ?mc ?i) =
        map (\<lambda>v. js_div v (js_literal 1.03)) (rawMonetaryFields ?mc)"
    using applyFxNormalization_rate_table [of ?mc ?i] by blast
  then have "normalizedMonetaryFields (applyFxNormalization ?mc ?i)
     = [Number 1000, Number 900, Number 700, Number 600, Number 400, Number 200, Number 100,
        Number 300, Number 500]"
    unfolding d by (simp add: c)
  moreover have "InventoryRowRaw.country ?tw = ''TW'' \<longrightarrow>
      normalizedMonetaryFields (applyFxNormalization ?tw ?i) =
        map (\<lambda>v. js_div v (js_literal 4.02)) (rawMonetaryFields ?tw)"
    using applyFxNormalization_rate_table [of ?tw ?i] by blast
  then have tw: "normalizedMonetaryFields (applyFxNormalization ?tw ?i) =
        map (\<lambda>v. js_div v (js_literal 4.02)) (rawMonetaryFields ?tw)"
    by (simp add: c)
  moreover have "InventoryRow.grossSalesFx (applyFxNormalization ?tw ?i)
     = Number (8796093022208001 / 8796093022208)"
  proof -
    have "InventoryRow.grossSalesFx (applyFxNormalization ?tw ?i) =
          hd (normalizedMonetaryFields (applyFxNormalization ?tw ?i))"
      by (simp add: normalizedMonetaryFields_def)
    also have "\<dots> = js_div (Number 4020) (js_literal 4.02)"
      unfolding tw by (simp add: rawMonetaryFields_def sampleRaw_def)
    finally show ?thesis by (simp only: g)
  qed
  moreover have "InventoryRowRaw.country ?jp \<notin> {''MC'', ''TW''} \<and>
        list_all is_binary64 (rawMonetaryFields ?jp) \<longrightarrow>
      normalizedMonetaryFields (applyFxNormalization ?jp ?i) = rawMonetaryFields ?jp"
    using applyFxNormalization_rate_table [of ?jp ?i] by blast
  then have "normalizedMonetaryFields (applyFxNormalization ?jp ?i) = rawMonetaryFields ?jp"
    using sampleRaw_binary64 [of "''JP''"] by (simp add: c)
  moreover have "InventoryRowRaw.country ?hk = ''HK'' \<longrightarrow>
      normalizedMonetaryFields (applyFxNormalization ?hk ?i) = rawMonetaryFields ?hk"
    using applyFxNormalization_rate_table [of ?hk ?i] by blast
  then have "normalizedMonetaryFields (applyFxNormalization ?hk ?i) = rawMonetaryFields ?hk"
    by (simp add: c)
  ultimately show ?thesis by blast
qed




text \<open>
  C9. The normalized row keeps every field of the raw record as it was: cut back to the
  raw fields it is the raw row, and it carries the season info it was given.
\<close>

theorem applyFxNormalization_frame:
  "InventoryRowRaw.truncate (applyFxNormalization row info) = row
   \<and> applyFxNormalization row info =
     InventoryRowRaw.extend row
       \<lparr>fxRate = fxRate (applyFxNormalization row info),
        InventoryRow.grossSalesFx = InventoryRow.grossSalesFx (applyFxNormalization row info),
        InventoryRow.netSalesFx = InventoryRow.netSalesFx (applyFxNormalization row info),
        InventoryRow.stockPriceFx = InventoryRow.stockPriceFx (applyFxNormalization row info),
        InventoryRow.stockCostFx = InventoryRow.stockCostFx (applyFxNormalization row info),
        acSalesGrossFx = acSalesGrossFx (applyFxNormalization row info),
        netAcPPFx = netAcPPFx (applyFxNormalization row info),
        acSalesCostFx = acSalesCostFx (applyFxNormalization row info),
        acSalesNetAmountFx = acSalesNetAmountFx (applyFxNormalization row info),
        cogsFx = cogsFx (applyFxNormalization row info),
        discountRateMonth = discountRateMonth (applyFxNormalization row info),
        InventoryRow.seasonInfo = info\<rparr>
   \<and> InventoryRow.seasonInfo (applyFxNormalization row info) = info
   \<and> InventoryRowRaw.period (applyFxNormalization row info) = InventoryRowRaw.period row
   \<and> InventoryRowRaw.country (applyFxNormalization row info) = InventoryRowRaw.country row
   \<and> exRate (applyFxNormalization row info) = exRate row
   \<and> itemCode (applyFxNormalization row info) = itemCode row
   \<and> itemDesc1 (applyFxNormalization row info) = itemDesc1 row
   \<and> itemDesc2 (applyFxNormalization row info) = itemDesc2 row
   \<and> storeCode (applyFxNormalization row info) = storeCode row
   \<and> storeName (applyFxNormalization row info) = storeName row
   \<and> salesDiv (applyFxNormalization row info) = salesDiv row
   \<and> season (applyFxNormalization row info) = season row
   \<and> brand (applyFxNormalization row info) = brand row
   \<and> brandName (applyFxNormalization row info) = brandName row
   \<and> category (applyFxNormalization row info) = category row
   \<and> categoryName (applyFxNormalization row info) = categoryName row
   \<and> subcategory (applyFxNormalization row info) = subcategory row
   \<and> subcategoryName (applyFxNormalization row info) = subcategoryName row
   \<and> salesQty (applyFxNormalization row info) = salesQty row
   \<and> acSalesQty (applyFxNormalization row info) = acSalesQty row
   \<and> stockQty (applyFxNormalization row info) = stockQty row
   \<and> netAcPC (applyFxNormalization row info) = netAcPC row
   \<and> netAcPP (applyFxNormalization row info) = netAcPP row
   \<and> acSalesCost (applyFxNormalization row info) = acSalesCost row
   \<and> acSalesNetAmount (applyFxNormalization row info) = acSalesNetAmount row
   \<and> acSalesGross (applyFxNormalization row info) = acSalesGross row
   \<and> grossSalesMonth (applyFxNormalization row info) = grossSalesMonth row
   \<and> netSalesMonth (applyFxNormalization row info) = netSalesMonth row
   \<and> cogsMonth (applyFxNormalization row info) = cogsMonth row
   \<and> stockCost (applyFxNormalization row info) = stockCost row
   \<and> stockPriceTag (applyFxNormalization row info) = stockPriceTag row
   \<and> sourceYearType (applyFxNormalization row info) = sourceYearType row"
proof -
  have ext: "applyFxNormalization row info =
     InventoryRowRaw.extend row
       \<lparr>fxRate = fxRate (applyFxNormalization row info),
        InventoryRow.grossSalesFx = InventoryRow.grossSalesFx (applyFxNormalization row info),
        InventoryRow.netSalesFx = InventoryRow.netSalesFx (applyFxNormalization row info),
        InventoryRow.stockPriceFx = InventoryRow.stockPriceFx (applyFxNormalization row info),
        InventoryRow.stockCostFx = InventoryRow.stockCostFx (applyFxNormalization row info),
        acSalesGrossFx = acSalesGrossFx (applyFxNormalization row info),
        netAcPPFx = netAcPPFx (applyFxNormalization row info),
        acSalesCostFx = acSalesCostFx (applyFxNormalization row info),
        acSalesNetAmountFx = acSalesNetAmountFx (applyFxNormalization row info),
        cogsFx = cogsFx (applyFxNormalization row info),
        discountRateMonth = discountRateMonth (applyFxNormalization row info),
        InventoryRow.seasonInfo = info\<rparr>"
    by (cases row) (simp add: applyFxNormalization_def Let_def InventoryRowRaw.extend_def)
  obtain m where m: "applyFxNormalization row info = InventoryRowRaw.extend row m"
    by (simp add: applyFxNormalization_def Let_def)
  have info: "InventoryRow.seasonInfo (applyFxNormalization row info) = info"
    by (simp add: applyFxNormalization_def Let_def InventoryRowRaw.extend_def)
  have rest: "InventoryRowRaw.truncate (InventoryRowRaw.extend row m) = row
   \<and> InventoryRowRaw.period (InventoryRowRaw.extend row m) = InventoryRowRaw.period row
   \<and> InventoryRowRaw.country (InventoryRowRaw.extend row m) = InventoryRowRaw.country row
   \<and> exRate (InventoryRowRaw.extend row m) = exRate row
   \<and> itemCode (InventoryRowRaw.extend row m) = itemCode row
   \<and> itemDesc1 (InventoryRowRaw.extend row m) = itemDesc1 row
   \<and> itemDesc2 (InventoryRowRaw.extend row m) = itemDesc2 row
   \<and> storeCode (InventoryRowRaw.extend row m) = storeCode row
   \<and> storeName (InventoryRowRaw.extend row m) = storeName row
   \<and> salesDiv (InventoryRowRaw.extend row m) = salesDiv row
   \<and> season (InventoryRowRaw.extend row m) = season row
   \<and> brand (InventoryRowRaw.extend row m) = brand row
   \<and> brandName (InventoryRowRaw.extend row m) = brandName row
   \<and> category (InventoryRowRaw.extend row m) = category row
   \<and> categoryName (InventoryRowRaw.extend row m) = categoryName row
   \<and> subcategory (InventoryRowRaw.extend row m) = subcategory row
   \<and> subcategoryName (InventoryRowRaw.extend row m) = subcategoryName row
   \<and> salesQty (InventoryRowRaw.extend row m) = salesQty row
   \<and> acSalesQty (InventoryRowRaw.extend row m) = acSalesQty row
   \<and> stockQty (InventoryRowRaw.extend row m) = stockQty row
   \<and> netAcPC (InventoryRowRaw.extend row m) = netAcPC row
   \<and> netAcPP (InventoryRowRaw.extend row m) = netAcPP row
   \<and> acSalesCost (InventoryRowRaw.extend row m) = acSalesCost row
   \<and> acSalesNetAmount (InventoryRowRaw.extend row m) = acSalesNetAmount row
   \<and> acSalesGross (InventoryRowRaw.extend row m) = acSalesGross row
   \<and> grossSalesMonth (InventoryRowRaw.extend row m) = grossSalesMonth row
   \<and> netSalesMonth (InventoryRowRaw.extend row m) = netSalesMonth row
   \<and> cogsMonth (InventoryRowRaw.extend row m) = cogsMonth row
   \<and> stockCost (InventoryRowRaw.extend row m) = stockCost row
   \<and> stockPriceTag (InventoryRowRaw.extend row m) = stockPriceTag row
   \<and> sourceYearType (InventoryRowRaw.extend row m) = sourceYearType row"
    by (cases row) (simp add: InventoryRowRaw.extend_def InventoryRowRaw.truncate_def)
  show ?thesis
    using rest info ext unfolding m [symmetric] by (intro conjI) (elim conjE; assumption)+
qed

subsection \<open>Graph rows\<close>

lemma digit_val_range: "is_digit c \<Longrightarrow> 0 \<le> digit_val c \<and> digit_val c \<le> 9"
  by (auto simp: is_digit_def digit_val_def)

lemma digit_val_2: "is_digit c \<Longrightarrow> digit_val c = 2 \<longleftrightarrow> c = CHR ''2''"
  by (auto simp: is_digit_def digit_val_def)

lemma digit_val_4: "is_digit c \<Longrightarrow> digit_val c = 4 \<longleftrightarrow> c = CHR ''4''"
  by (auto simp: is_digit_def digit_val_def)

lemma signed_digits_one: "signed_digits [a] \<noteq> Some 24"
  using digit_val_range [of a]
  by (auto simp: signed_digits_def Let_def digits_val_def)

lemma signed_digits_empty: "signed_digits [] = None"
  by (simp add: signed_digits_def)

lemma signed_digits_two: "signed_digits [a, b] = Some 24 \<longleftrightarrow> a = CHR ''2'' \<and> b = CHR ''4''"
proof (cases "a = CHR ''+'' \<or> a = CHR ''-''")
  case True
  then show ?thesis
    using digit_val_range [of b]
    by (auto simp: signed_digits_def Let_def digits_val_def)
next
  case False
  show ?thesis
  proof (cases "is_digit a")
    case a: True
    show ?thesis
    proof (cases "is_digit b")
      case b: True
      have "signed_digits [a, b] = Some (10 * digit_val a + digit_val b)"
        using False a b by (simp add: signed_digits_def Let_def digits_val_def)
      moreover have "10 * digit_val a + digit_val b = 24 \<longleftrightarrow> digit_val a = 2 \<and> digit_val b = 4"
        using digit_val_range [OF a] digit_val_range [OF b] by presburger
      ultimately show ?thesis
        by (simp add: digit_val_2 [OF a] digit_val_4 [OF b])
    next
      case b: False
      have "signed_digits [a, b] = Some (digit_val a)"
        using False a b by (simp add: signed_digits_def Let_def digits_val_def)
      moreover have "b \<noteq> CHR ''4''" using b by (auto simp: is_digit_def)
      ultimately show ?thesis
        using digit_val_range [OF a] by auto
    qed
  next
    case a: False
    have "signed_digits [a, b] = None"
      using False a by (simp add: signed_digits_def Let_def)
    moreover have "a \<noteq> CHR ''2''" using a by (auto simp: is_digit_def)
    ultimately show ?thesis by simp
  qed
qed

lemma js_parseInt10_two_chars:
  assumes "length s \<le> 2"
  shows "js_parseInt10 s = Some 24 \<longleftrightarrow> s = ''24''"
proof -
  consider "s = []" | a where "s = [a]" | a b where "s = [a, b]"
    using assms by (cases s; cases "tl s"; cases "tl (tl s)") auto
  then show ?thesis
  proof cases
    case 1
    then show ?thesis by (simp add: js_parseInt10_def signed_digits_empty)
  next
    case 2
    then show ?thesis
      using signed_digits_one [of a]
      by (simp add: js_parseInt10_def signed_digits_empty)
  next
    case 3
    show ?thesis
    proof (cases "is_space a")
      case True
      then have "a \<noteq> CHR ''2''" by (auto simp: is_space_def)
      then show ?thesis
        unfolding 3 js_parseInt10_def using True signed_digits_one [of b]
        by (simp add: signed_digits_empty)
    next
      case False
      then show ?thesis
        unfolding 3 js_parseInt10_def by (simp add: signed_digits_two)
    qed
  qed
qed


text \<open>
  C10. The season info of a normalized graph row is \<^const>\<open>parseSeason\<close> of the row's
  season code against reference year 24 when the first two characters of \<open>Period\<close> parse to
  24, which is when they are the characters \<open>24\<close>, and against 25 for every other
  \<open>Period\<close>; the \<open>Year\<close> column has no part in it.
\<close>

theorem normalizeGraphDataRow_reference_year:
  "GraphDataRow.seasonInfo (normalizeGraphDataRow raw) =
     parseSeason (Some (Season_Code raw))
       (if js_parseInt10 (take 2 (Period raw)) = Some 24 then 24 else 25)
   \<and> (js_parseInt10 (take 2 (Period raw)) = Some 24 \<longleftrightarrow> take 2 (Period raw) = ''24'')
   \<and> GraphDataRow.seasonInfo (normalizeGraphDataRow (raw\<lparr>Year := y\<rparr>)) =
       GraphDataRow.seasonInfo (normalizeGraphDataRow raw)"
proof -
  have "length (take 2 (Period raw)) \<le> 2" by simp
  then have "js_parseInt10 (take 2 (Period raw)) = Some 24 \<longleftrightarrow> take 2 (Period raw) = ''24''"
    by (rule js_parseInt10_two_chars)
  moreover have "GraphDataRow.seasonInfo (normalizeGraphDataRow r) =
     parseSeason (Some (Season_Code r))
       (if js_parseInt10 (take 2 (Period r)) = Some 24 then 24 else 25)" for r
    by (simp add: normalizeGraphDataRow_def Let_def GraphDataRowRaw.extend_def)
  ultimately show ?thesis by simp
qed

theorem normalizeGraphDataRow_reference_year_witness:
  "yearBucket (GraphDataRow.seasonInfo
     (normalizeGraphDataRow (sampleGraphRaw ''2412'' ''2025'' ''24F'' ''HK'' (Number 1000) (Number 900))))
     = InSeason
   \<and> yearBucket (GraphDataRow.seasonInfo
     (normalizeGraphDataRow (sampleGraphRaw ''2512'' ''2024'' ''24F'' ''HK'' (Number 1000) (Number 900))))
     = Y1
   \<and> yearBucket (GraphDataRow.seasonInfo
     (normalizeGraphDataRow (sampleGraphRaw ''2312'' ''2023'' ''24F'' ''HK'' (Number 1000) (Number 900))))
     = Y1
   \<and> yearBucket (GraphDataRow.seasonInfo
     (normalizeGraphDataRow (sampleGraphRaw ''xx'' ''2024'' ''24F'' ''HK'' (Number 1000) (Number 900))))
     = Y1"
proof -
  have b: "yearBucket (parseSeason (Some ''24F'') 24) = InSeason"
    "yearBucket (parseSeason (Some ''24F'') 25) = Y1"
    by code_simp+
  show ?thesis
    using b
      normalizeGraphDataRow_reference_year
        [of "sampleGraphRaw ''2412'' ''2025'' ''24F'' ''HK'' (Number 1000) (Number 900)"]
      normalizeGraphDataRow_reference_year
        [of "sampleGraphRaw ''2512'' ''2024'' ''24F'' ''HK'' (Number 1000) (Number 900)"]
      normalizeGraphDataRow_reference_year
        [of "sampleGraphRaw ''2312'' ''2023'' ''24F'' ''HK'' (Number 1000) (Number 900)"]
      normalizeGraphDataRow_reference_year
        [of "sampleGraphRaw ''xx'' ''2024'' ''24F'' ''HK'' (Number 1000) (Number 900)"]
    by (simp add: sampleGraphRaw_def)
qed

subsection \<open>The CSV tokenizer\<close>

lemma length_spec_padded: "length (spec_padded n vals) = n"
  by (simp add: spec_padded_def)

lemma nth_spec_padded:
  "i < n \<Longrightarrow> spec_padded n vals ! i = (if i < length vals then vals ! i else [])"
  by (simp add: spec_padded_def nth_append)

text \<open>The loop over the headers from position \<open>i\<close> on, after the first \<open>i\<close> have been stored.\<close>

lemma forEachHeader_from:
  "forEachHeader hs i vals row =
     row ++ map_of (rev (zip hs (drop i (spec_padded (i + length hs) vals))))"
proof (induction hs arbitrary: i row)
  case Nil
  then show ?case by simp
next
  case (Cons h hs)
  let ?v = "if i < length vals then vals ! i else []"
  have d: "drop i (spec_padded (i + length (h # hs)) vals) =
           ?v # drop (Suc i) (spec_padded (Suc i + length hs) vals)"
  proof -
    have "i < length (spec_padded (i + length (h # hs)) vals)"
      by (simp add: length_spec_padded)
    then have "drop i (spec_padded (i + length (h # hs)) vals) =
               spec_padded (i + length (h # hs)) vals ! i
                 # drop (Suc i) (spec_padded (i + length (h # hs)) vals)"
      by (rule Cons_nth_drop_Suc [symmetric])
    then show ?thesis by (simp add: nth_spec_padded)
  qed
  have "forEachHeader (h # hs) i vals row = forEachHeader hs (Suc i) vals (row(h \<mapsto> ?v))"
    by simp
  also have "\<dots> = row(h \<mapsto> ?v) ++
       map_of (rev (zip hs (drop (Suc i) (spec_padded (Suc i + length hs) vals))))"
    by (rule Cons.IH)
  also have "\<dots> = row ++ map_of (rev (zip (h # hs) (drop i (spec_padded (i + length (h # hs)) vals))))"
    unfolding d by simp
  finally show ?case .
qed

lemma forEachHeader_spec: "forEachHeader hs 0 vals Map.empty = spec_zipRow hs vals"
  using forEachHeader_from [of hs 0 vals Map.empty] by (simp add: spec_zipRow_def)

lemma dataLoop_spec:
  "dataLoop hs ls rows =
     rows @ map (\<lambda>l. spec_zipRow hs (parseCSVLine (trim l))) (filter (spec_accept hs) ls)"
  by (induction ls arbitrary: rows) (simp_all add: Let_def spec_accept_def forEachHeader_spec)

lemma map_of_rev_distinct_keys:
  "distinct (map fst xs) \<Longrightarrow> map_of (rev xs) = map_of xs"
proof (induction xs)
  case Nil
  then show ?case by simp
next
  case (Cons kv xs)
  obtain k v where kv: "kv = (k, v)" by (cases kv)
  from Cons.prems have k: "map_of xs k = None" and d: "distinct (map fst xs)"
    by (simp_all add: kv map_of_eq_None_iff)
  have "map_of (rev (kv # xs)) = map_of [(k, v)] ++ map_of xs"
    using Cons.IH [OF d] by (simp add: kv)
  also have "\<dots> = map_of (kv # xs)"
    using k by (intro ext) (simp add: kv map_add_def split: option.split)
  finally show ?case .
qed

lemma spec_zipRow_nth:
  assumes "distinct hs" and "i < length hs"
  shows "spec_zipRow hs vals (hs ! i) = Some (if i < length vals then vals ! i else [])"
proof -
  let ?p = "spec_padded (length hs) vals"
  have len: "length hs = length ?p" by (simp add: length_spec_padded)
  have "distinct (map fst (zip hs ?p))"
    using assms(1) len by simp
  then have "map_of (rev (zip hs ?p)) = map_of (zip hs ?p)"
    by (rule map_of_rev_distinct_keys)
  moreover have "map_of (zip hs ?p) (hs ! i) = Some (?p ! i)"
    using len assms by (intro map_of_zip_nth) simp_all
  ultimately show ?thesis
    using assms(2) by (simp add: spec_zipRow_def nth_spec_padded)
qed

lemma dom_spec_zipRow: "dom (spec_zipRow hs vals) = set hs"
proof -
  have "dom (spec_zipRow hs vals) = fst ` set (zip hs (spec_padded (length hs) vals))"
    by (simp add: spec_zipRow_def dom_map_of_conv_image_fst)
  also have "\<dots> = set (map fst (zip hs (spec_padded (length hs) vals)))"
    by simp
  also have "\<dots> = set hs"
    by (simp add: length_spec_padded)
  finally show ?thesis .
qed

text \<open>
  C6. In the data-row stage of the tokenizer a line after the header gives a row of the
  output exactly when it is not blank and its field count is at least the header count
  less one; the rows come in the order of the lines. The mapping of an accepted line zips
  the cleaned headers with the fields by position: a header at a position with no field
  maps to the empty string, and the keys are the headers, so the fields beyond the last
  header are discarded. A line that lacks two or more fields leaves the rows as they are,
  and a line with more fields than headers is accepted.
\<close>

theorem parseCSV_data_rows:
  "dataLoop hs ls [] =
     map (\<lambda>l. spec_zipRow hs (parseCSVLine (trim l))) (filter (spec_accept hs) ls)
   \<and> parseCSV csvText =
     (if length (csvLines csvText) < 2 then []
      else map (\<lambda>l. spec_zipRow (fst (csvHeader (csvLines csvText))) (parseCSVLine (trim l)))
             (filter (spec_accept (fst (csvHeader (csvLines csvText))))
                (drop (snd (csvHeader (csvLines csvText))) (csvLines csvText))))
   \<and> (spec_accept hs l \<longleftrightarrow> trim l \<noteq> [] \<and> length hs \<le> length (parseCSVLine (trim l)) + 1)
   \<and> (trim l \<noteq> [] \<and> length (parseCSVLine (trim l)) + 2 \<le> length hs
        \<longrightarrow> dataLoop hs (l # ls) rows = dataLoop hs ls rows)
   \<and> (trim l \<noteq> [] \<and> length hs < length (parseCSVLine (trim l))
        \<longrightarrow> dataLoop hs (l # ls) rows =
            dataLoop hs ls (rows @ [spec_zipRow hs (parseCSVLine (trim l))]))
   \<and> (distinct hs \<and> i < length hs
        \<longrightarrow> spec_zipRow hs vals (hs ! i) = Some (if i < length vals then vals ! i else []))
   \<and> dom (spec_zipRow hs vals) = set hs"
proof -
  have a: "dataLoop hs ls [] =
     map (\<lambda>l. spec_zipRow hs (parseCSVLine (trim l))) (filter (spec_accept hs) ls)" for hs ls
    by (simp add: dataLoop_spec)
  have b: "parseCSV csvText =
     (if length (csvLines csvText) < 2 then []
      else map (\<lambda>l. spec_zipRow (fst (csvHeader (csvLines csvText))) (parseCSVLine (trim l)))
             (filter (spec_accept (fst (csvHeader (csvLines csvText))))
                (drop (snd (csvHeader (csvLines csvText))) (csvLines csvText))))"
    by (simp add: parseCSV_def Let_def case_prod_unfold a)
  have c: "spec_accept hs l \<longleftrightarrow> trim l \<noteq> [] \<and> length hs \<le> length (parseCSVLine (trim l)) + 1"
    by (auto simp: spec_accept_def)
  have d: "dataLoop hs (l # ls) rows = dataLoop hs ls rows"
    if "trim l \<noteq> [] \<and> length (parseCSVLine (trim l)) + 2 \<le> length hs"
    using that by (simp add: Let_def)
  have e: "dataLoop hs (l # ls) rows =
            dataLoop hs ls (rows @ [spec_zipRow hs (parseCSVLine (trim l))])"
    if "trim l \<noteq> [] \<and> length hs < length (parseCSVLine (trim l))"
    using that by (simp add: Let_def forEachHeader_spec)
  show ?thesis
    using a b c d e spec_zipRow_nth [of hs i vals] dom_spec_zipRow [of hs vals] by blast
qed

lemma csv_example:
  "map (\<lambda>r. map r [''a'', ''b'', ''c''])
     (parseCSV (''a,b,c'' @ [CHR 0x0A] @ ''1,2,3'' @ [CHR 0x0D, CHR 0x0A] @ ''4,5''
                @ [CHR 0x0A] @ ''6'' @ [CHR 0x0A] @ ''7,8,9,10''))
   = [[Some ''1'', Some ''2'', Some ''3''], [Some ''4'', Some ''5'', Some []],
      [Some ''7'', Some ''8'', Some ''9'']]"
  by code_simp

theorem parseCSV_data_rows_witness:
  "map (\<lambda>r. map r [''a'', ''b'', ''c''])
     (parseCSV (''a,b,c'' @ [CHR 0x0A] @ ''1,2,3'' @ [CHR 0x0D, CHR 0x0A] @ ''4,5''
                @ [CHR 0x0A] @ ''6'' @ [CHR 0x0A] @ ''7,8,9,10''))
   = [[Some ''1'', Some ''2'', Some ''3''], [Some ''4'', Some ''5'', Some []],
      [Some ''7'', Some ''8'', Some ''9'']]
   \<and> dataLoop [''a'', ''b'', ''c''] [''6''] [] = []
   \<and> dataLoop [''a'', ''b'', ''c''] [''7,8,9,10''] [] = [spec_zipRow [''a'', ''b'', ''c''] [''7'', ''8'', ''9'', ''10'']]
   \<and> spec_zipRow [''a'', ''b'', ''c''] [''4'', ''5''] ''c'' = Some []
   \<and> spec_zipRow [''a'', ''b'', ''c''] [''7'', ''8'', ''9'', ''10''] ''c'' = Some ''9''
   \<and> dom (spec_zipRow [''a'', ''b'', ''c''] [''7'', ''8'', ''9'', ''10'']) = {''a'', ''b'', ''c''}"
proof -
  have p: "trim ''6'' = ''6''" "parseCSVLine ''6'' = [''6'']"
    "trim ''7,8,9,10'' = ''7,8,9,10''" "parseCSVLine ''7,8,9,10'' = [''7'', ''8'', ''9'', ''10'']"
    by code_simp+
  have "dataLoop [''a'', ''b'', ''c''] [''6''] [] = []"
    using p parseCSV_data_rows [of "[''a'', ''b'', ''c'']" "[]" _ "''6''" "[]"] by simp
  moreover have "dataLoop [''a'', ''b'', ''c''] [''7,8,9,10''] [] =
      [spec_zipRow [''a'', ''b'', ''c''] [''7'', ''8'', ''9'', ''10'']]"
    using p parseCSV_data_rows [of "[''a'', ''b'', ''c'']" "[]" _ "''7,8,9,10''" "[]"] by simp
  moreover have "spec_zipRow [''a'', ''b'', ''c''] [''4'', ''5''] ''c'' = Some []"
    using parseCSV_data_rows [of "[''a'', ''b'', ''c'']" _ _ _ _ 2 "[''4'', ''5'']"] by simp
  moreover have "spec_zipRow [''a'', ''b'', ''c''] [''7'', ''8'', ''9'', ''10''] ''c'' = Some ''9''"
    using parseCSV_data_rows [of "[''a'', ''b'', ''c'']" _ _ _ _ 2 "[''7'', ''8'', ''9'', ''10'']"]
    by simp
  moreover have "dom (spec_zipRow [''a'', ''b'', ''c''] [''7'', ''8'', ''9'', ''10'']) = {''a'', ''b'', ''c''}"
    using parseCSV_data_rows [of "[''a'', ''b'', ''c'']" _ _ _ _ _ "[''7'', ''8'', ''9'', ''10'']"]
    by simp
  ultimately show ?thesis
    using csv_example by blast
qed

subsection \<open>The inventory orchestrators\<close>

lemma parseNumber_projr: "parseNumber v = Inr (projr (parseNumber v))"
  using parseNumber_returns [of v] by auto

lemma and_then_parseNumber: "and_then (parseNumber v) f = f (projr (parseNumber v))"
  by (subst parseNumber_projr) (simp add: and_then_def)

lemma parseCSVRow_total:
  "\<exists>raw. parseCSVRow row tag = Inr raw \<and> sourceYearType raw = tag
     \<and> season raw = parseString (row ''SEASON'')"
  by (simp add: parseCSVRow_def Let_def and_then_parseNumber)

lemma normalizeLoop_map:
  "normalizeLoop tag fwYear rows allRows = allRows @ map (decodeRow tag fwYear) rows"
proof (induction rows arbitrary: allRows)
  case Nil
  then show ?case by simp
next
  case (Cons row rows)
  obtain raw where "parseCSVRow row tag = Inr raw"
    using parseCSVRow_total by blast
  then show ?case
    by (simp add: Cons.IH decodeRow_def Let_def)
qed

lemma decodeRow_fields:
  "sourceYearType (decodeRow tag fwYear row) = tag"
  "InventoryRow.seasonInfo (decodeRow tag fwYear row) =
     parseSeason (Some (season (decodeRow tag fwYear row))) fwYear"
proof -
  obtain raw where r: "parseCSVRow row tag = Inr raw" "sourceYearType raw = tag"
    using parseCSVRow_total by blast
  have f: "sourceYearType (applyFxNormalization raw info) = sourceYearType raw"
    "season (applyFxNormalization raw info) = season raw"
    "InventoryRow.seasonInfo (applyFxNormalization raw info) = info" for info
    by (cases raw; simp add: applyFxNormalization_def Let_def InventoryRowRaw.extend_def)+
  show "sourceYearType (decodeRow tag fwYear row) = tag"
    by (simp add: decodeRow_def r f)
  show "InventoryRow.seasonInfo (decodeRow tag fwYear row) =
     parseSeason (Some (season (decodeRow tag fwYear row))) fwYear"
    by (simp add: decodeRow_def r f)
qed

lemma loadAndNormalizeData_rows:
  "loadAndNormalizeData pyCsv cyCsv y =
     map (decodeRow PY y) (parseCSV pyCsv) @ map (decodeRow CY y) (parseCSV cyCsv)"
  by (simp add: loadAndNormalizeData_def normalizeLoop_map)

lemma loadAndNormalizeData_one_reference_year:
  "r \<in> set (loadAndNormalizeData pyCsv cyCsv y) \<Longrightarrow>
     InventoryRow.seasonInfo r = parseSeason (Some (season r)) y"
  by (auto simp: loadAndNormalizeData_rows decodeRow_fields)


lemma loadData_rows:
  "loadData fetchText (Some pyPath) (Some cyPath) None None y =
     (if pyPath \<noteq> [] \<and> cyPath \<noteq> [] then
        map (decodeRow PY 24) (parseCSV (fetchText pyPath)) @
        map (decodeRow CY 25) (parseCSV (fetchText cyPath))
      else [])"
  "loadData fetchText pyP cyP (Some pyRows) (Some cyRows) y =
     map (decodeRow PY 24) pyRows @ map (decodeRow CY 25) cyRows"
  by (simp_all add: loadData_def normalizeLoop_map truthy_def Let_def)

text \<open>The dashboard's \<^const>\<open>loadData\<close> never reads its \<^verbatim>\<open>currentFwYear\<close>.\<close>

lemma loadData_ignores_currentFwYear:
  "loadData fetchText pyP cyP pyRows cyRows y = loadData fetchText pyP cyP pyRows cyRows y'"
  by (simp add: loadData_def)

text \<open>
  What the examples read from a decoded row depends on the row's \<open>SEASON\<close> cell, the
  source-year tag and the reference year only.
\<close>

lemma decodeRow_season: "season (decodeRow tag fwYear row) = parseString (row ''SEASON'')"
proof -
  obtain raw where r: "parseCSVRow row tag = Inr raw"
    "season raw = parseString (row ''SEASON'')"
    using parseCSVRow_total by blast
  have "season (applyFxNormalization raw info) = season raw" for info
    by (cases raw) (simp add: applyFxNormalization_def Let_def InventoryRowRaw.extend_def)
  then show ?thesis
    by (simp add: decodeRow_def r)
qed

lemma decodeRow_summary:
  "(sourceYearType (decodeRow tag fwYear row), season (decodeRow tag fwYear row),
    yearBucket (InventoryRow.seasonInfo (decodeRow tag fwYear row)),
    isOffSeasonFW (Inl (decodeRow tag fwYear row)))
   = (tag, parseString (row ''SEASON''),
      yearBucket (parseSeason (Some (parseString (row ''SEASON''))) fwYear),
      isOffSeasonFW
        (Inr \<lparr>SeasonInfoRow.seasonInfo = parseSeason (Some (parseString (row ''SEASON''))) fwYear\<rparr>))"
  by (simp add: decodeRow_fields decodeRow_season isOffSeasonFW_def rowSeasonInfo_def)

lemma example_files:
  "map (\<lambda>row. row ''SEASON'')
     (parseCSV (''SEASON,Country,Gross Sales ($),Net Sales ($)'' @ [CHR 0x0A] @ ''24F,HK,1000,900''))
   = [Some ''24F'']"
  "map (\<lambda>row. row ''SEASON'')
     (parseCSV (''SEASON,Country,Gross Sales ($),Net Sales ($)'' @ [CHR 0x0A] @ ''24F,HK,1100,950''))
   = [Some ''24F'']"
  by code_simp+

lemma example_buckets:
  "parseString (Some ''24F'') = ''24F''"
  "yearBucket (parseSeason (Some ''24F'') 25) = Y1"
  "yearBucket (parseSeason (Some ''24F'') 24) = InSeason"
  "isOffSeasonFW (Inr \<lparr>SeasonInfoRow.seasonInfo = parseSeason (Some ''24F'') 25\<rparr>)"
  "\<not> isOffSeasonFW (Inr \<lparr>SeasonInfoRow.seasonInfo = parseSeason (Some ''24F'') 24\<rparr>)"
  by code_simp+

text \<open>
  C3. The claim is that the orchestrator classifies the rows of the Prior-Year file
  against the reference fiscal year less one and the rows of the Current-Year file
  against the reference year itself, so that season \<open>24F\<close> with reference year 25 is
  \<open>InSeason\<close> in the Prior-Year file, \<open>Y1\<close> in the Current-Year file, and only the
  Current-Year row passes the off-season filter. On the end-to-end example of the
  specification (one row \<open>24F\<close>, \<open>HK\<close> in each file, reference year 25)
  \<^const>\<open>loadAndNormalizeData\<close> puts both rows in \<open>Y1\<close> and both pass the filter: it
  classifies the two files against the same year (lemma
  \<open>loadAndNormalizeData_one_reference_year\<close>). The dashboard's \<^const>\<open>loadData\<close> gives the
  claimed result on the same two files, with 24 and 25 written as literals.
\<close>

theorem loadAndNormalizeData_prior_year_file_example:
  "map (\<lambda>r. (sourceYearType r, season r, yearBucket (InventoryRow.seasonInfo r), isOffSeasonFW (Inl r)))
     (loadAndNormalizeData
        (''SEASON,Country,Gross Sales ($),Net Sales ($)'' @ [CHR 0x0A] @ ''24F,HK,1000,900'')
        (''SEASON,Country,Gross Sales ($),Net Sales ($)'' @ [CHR 0x0A] @ ''24F,HK,1100,950'') 25)
   = [(PY, ''24F'', Y1, True), (CY, ''24F'', Y1, True)]
  \<and> map (\<lambda>r. (sourceYearType r, season r, yearBucket (InventoryRow.seasonInfo r), isOffSeasonFW (Inl r)))
     (loadData (\<lambda>p. if p = ''py.csv'' then ''SEASON,Country,Gross Sales ($),Net Sales ($)'' @ [CHR 0x0A] @ ''24F,HK,1000,900''
            else ''SEASON,Country,Gross Sales ($),Net Sales ($)'' @ [CHR 0x0A] @ ''24F,HK,1100,950'')
        (Some ''py.csv'') (Some ''cy.csv'') None None 25)
   = [(PY, ''24F'', InSeason, False), (CY, ''24F'', Y1, True)]"
proof -
  let ?py = "''SEASON,Country,Gross Sales ($),Net Sales ($)'' @ [CHR 0x0A] @ ''24F,HK,1000,900''"
  let ?cy = "''SEASON,Country,Gross Sales ($),Net Sales ($)'' @ [CHR 0x0A] @ ''24F,HK,1100,950''"
  let ?f = "\<lambda>r. (sourceYearType r, season r, yearBucket (InventoryRow.seasonInfo r),
                  isOffSeasonFW (Inl r))"
  let ?g = "\<lambda>tag y cell. (tag, parseString cell, yearBucket (parseSeason (Some (parseString cell)) y),
      isOffSeasonFW (Inr \<lparr>SeasonInfoRow.seasonInfo = parseSeason (Some (parseString cell)) y\<rparr>))"
  have m: "map ?f (map (decodeRow tag y) rows) = map (?g tag y) (map (\<lambda>row. row ''SEASON'') rows)"
    for tag y rows
    by (simp add: decodeRow_summary)
  have u: "map ?f (loadAndNormalizeData ?py ?cy 25) = [(PY, ''24F'', Y1, True), (CY, ''24F'', Y1, True)]"
    unfolding loadAndNormalizeData_rows map_append m example_files
    by (simp add: example_buckets)
  have ld: "loadData (\<lambda>p. if p = ''py.csv'' then ?py else ?cy)
        (Some ''py.csv'') (Some ''cy.csv'') None None 25
      = map (decodeRow PY 24) (parseCSV ?py) @ map (decodeRow CY 25) (parseCSV ?cy)"
    by (simp add: loadData_rows(1))
  have d: "map ?f (loadData (\<lambda>p. if p = ''py.csv'' then ?py else ?cy)
        (Some ''py.csv'') (Some ''cy.csv'') None None 25)
      = [(PY, ''24F'', InSeason, False), (CY, ''24F'', Y1, True)]"
    unfolding ld map_append m example_files
    by (simp add: example_buckets)
  show ?thesis
    using u d by blast
qed

end
